theory Spec2Isabelle
  imports Main
begin

section \<open>Strings\<close>

text \<open>
  Strings are byte lists. The hashes, status names and messages the services compare are
  ASCII; the one non-ASCII character of the sources (the dash in the cancellation message)
  is written as its three UTF-8 bytes. \<open>toLowerCase\<close> is modelled on the ASCII letters, which
  is all that a string accepted by the hash pattern contains.
\<close>

definition hex_lower :: "char \<Rightarrow> bool" where
  "hex_lower c = (c \<in> set ''0123456789abcdef'')"

definition hex_any_case :: "char \<Rightarrow> bool" where
  "hex_any_case c = (c \<in> set ''0123456789abcdefABCDEF'')"

definition lower_char :: "char \<Rightarrow> char" where
  "lower_char c =
     (case map_of (zip ''ABCDEFGHIJKLMNOPQRSTUVWXYZ'' ''abcdefghijklmnopqrstuvwxyz'') c of
        Some d \<Rightarrow> d
      | None \<Rightarrow> c)"

definition toLowerCase :: "string \<Rightarrow> string" where
  "toLowerCase s = map lower_char s"

text \<open>\<open>WASM_HASH_REGEX = /^[0-9a-f]{64}$/i\<close>: sixty-four hex digits of either case.\<close>

definition WASM_HASH_REGEX_test :: "string \<Rightarrow> bool" where
  "WASM_HASH_REGEX_test s = (length s = 64 \<and> list_all hex_any_case s)"

text \<open>The column check of the schema, \<open>~ '^[0-9a-f]{64}$'\<close>: lowercase digits only.\<close>

definition hash_column_check :: "string \<Rightarrow> bool" where
  "hash_column_check s = (length s = 64 \<and> list_all hex_lower s)"

fun starts_with :: "string \<Rightarrow> string \<Rightarrow> bool" where
  "starts_with s [] = True"
| "starts_with [] (p # ps) = False"
| "starts_with (c # cs) (p # ps) = (c = p \<and> starts_with cs ps)"

text \<open>\<open>String.prototype.includes\<close>.\<close>

fun str_includes :: "string \<Rightarrow> string \<Rightarrow> bool" where
  "str_includes [] sub = (sub = [])"
| "str_includes (c # cs) sub = (starts_with (c # cs) sub \<or> str_includes cs sub)"

text \<open>Decimal digits of a number, as a template literal prints it.\<close>

fun string_of_nat :: "nat \<Rightarrow> string" where
  "string_of_nat n =
     (if n < 10 then [''0123456789'' ! n]
      else string_of_nat (n div 10) @ [''0123456789'' ! (n mod 10)])"

declare string_of_nat.simps [simp del]

section \<open>Data model of the upgrade service\<close>

datatype log_status =
  Pending | Simulated | Confirmed | Executing | Completed | Failed | Cancelled

fun status_name :: "log_status \<Rightarrow> string" where
  "status_name Pending = ''pending''"
| "status_name Simulated = ''simulated''"
| "status_name Confirmed = ''confirmed''"
| "status_name Executing = ''executing''"
| "status_name Completed = ''completed''"
| "status_name Failed = ''failed''"
| "status_name Cancelled = ''cancelled''"

datatype step_status = StepPending | StepRunning | StepCompleted | StepFailed

record MigrationStep =
  step_id :: string
  step_name :: string
  step_status :: step_status
  step_message :: "string option"

record UpgradeSimulationResult =
  success :: bool
  estimatedFee :: string
  estimatedFeeXlm :: string
  cpuInstructions :: string
  memoryBytes :: string
  latestLedger :: nat
  transactionData :: "string option"
  warnings :: "string list"
  error :: "string option"

record ContractRecord =
  cr_name :: string
  description :: "string option"
  network :: string
  contract_id :: string
  current_wasm_hash :: string
  version :: string
  last_upgraded_at :: "nat option"
  last_upgraded_by :: "string option"
  cr_created_at :: nat

record UpgradeLog =
  registry_id :: nat
  previous_wasm_hash :: string
  new_wasm_hash :: string
  status :: log_status
  simulation_result :: "UpgradeSimulationResult option"
  tx_hash :: "string option"
  migration_steps :: "MigrationStep list"
  initiated_by :: string
  log_notes :: "string option"
  error_message :: "string option"
  created_at :: nat
  completed_at :: "nat option"

text \<open>
  The two tables of migration 014, keyed by their primary keys, and the sequence behind
  \<open>contract_upgrade_logs.id\<close>. Timestamps (\<open>NOW()\<close>) are natural numbers handed to each
  operation. Statements are taken to reach the database: a connection failure in the
  middle of an operation is not part of the model, except for the queries of the migration
  steps, whose failure is how a step fails; a constraint violation is part of it.
\<close>

record db =
  contract_registry :: "nat \<rightharpoonup> ContractRecord"
  contract_upgrade_logs :: "nat \<rightharpoonup> UpgradeLog"
  upgrade_logs_seq :: nat

text \<open>
  What a JavaScript \<open>throw\<close> carries, as far as the catch blocks and the controller look:
  a \<open>ZodError\<close>, another \<open>Error\<close>, each with its message, or a value that is no
  \<open>Error\<close>. \<open>message_or d e\<close> is \<open>e instanceof Error ? e.message : d\<close>.
\<close>

datatype thrown = ZodError string | Error string | NonError

fun message_or :: "string \<Rightarrow> thrown \<Rightarrow> string" where
  "message_or d (ZodError m) = m"
| "message_or d (Error m) = m"
| "message_or d NonError = d"

section \<open>Registry queries\<close>

definition getContract :: "db \<Rightarrow> nat \<Rightarrow> ContractRecord option" where
  "getContract s registryId = contract_registry s registryId"

definition getUpgradeLogStatus :: "db \<Rightarrow> nat \<Rightarrow> UpgradeLog option" where
  "getUpgradeLogStatus s upgradeLogId = contract_upgrade_logs s upgradeLogId"

section \<open>validateWasmHash\<close>

text \<open>
  The outcome of the \<open>try\<close> block around \<open>getLedgerEntries\<close>: something in it threw, or
  the response came back, with \<open>entries\<close> absent (\<open>None\<close>) or of the given length.
\<close>

datatype ledger_entries_rpc = LedgerEntriesThrows thrown | LedgerEntries "nat option"

record validation =
  valid :: bool
  reason :: "string option"

definition reason_format :: string where
  "reason_format = ''WASM hash must be exactly 64 lowercase hex characters (SHA-256).''"

definition reason_no_contract :: string where
  "reason_no_contract = ''Contract not found in registry.''"

definition reason_identical :: string where
  "reason_identical =
     ''New WASM hash is identical to the currently deployed hash. No upgrade needed.''"

definition reason_not_on_chain :: string where
  "reason_not_on_chain =
     ''WASM hash not found on the network. Upload the WASM bytecode first via `stellar contract upload`.''"

definition warn_rpc_unreachable :: string where
  "warn_rpc_unreachable =
     ''ContractUpgradeService: RPC reachability check failed, skipping on-chain validation:''"

text \<open>
  The function only reads the database. It returns what the source returns, or the thrown
  value, together with the lines it wrote with \<open>console.warn\<close>. No branch of the source
  throws, so the left summand is never produced; the type keeps it for the callers.
\<close>

definition validateWasmHash ::
  "ledger_entries_rpc \<Rightarrow> db \<Rightarrow> nat \<Rightarrow> string \<Rightarrow> (thrown + validation) \<times> string list" where
  "validateWasmHash rpc s registryId newWasmHash =
     (if \<not> WASM_HASH_REGEX_test newWasmHash
      then (Inr \<lparr>valid = False, reason = Some reason_format\<rparr>, [])
      else
        (case getContract s registryId of
           None \<Rightarrow> (Inr \<lparr>valid = False, reason = Some reason_no_contract\<rparr>, [])
         | Some contract \<Rightarrow>
             if toLowerCase newWasmHash = toLowerCase (current_wasm_hash contract)
             then (Inr \<lparr>valid = False, reason = Some reason_identical\<rparr>, [])
             else
               (case rpc of
                  LedgerEntries None \<Rightarrow>
                    (Inr \<lparr>valid = False, reason = Some reason_not_on_chain\<rparr>, [])
                | LedgerEntries (Some n) \<Rightarrow>
                    if n = 0
                    then (Inr \<lparr>valid = False, reason = Some reason_not_on_chain\<rparr>, [])
                    else (Inr \<lparr>valid = True, reason = None\<rparr>, [])
                | LedgerEntriesThrows rpcError \<Rightarrow>
                    (Inr \<lparr>valid = True, reason = None\<rparr>, [warn_rpc_unreachable]))))"

section \<open>cancelUpgrade\<close>

definition msg_cannot_cancel :: string where
  "msg_cannot_cancel =
     ''Upgrade cannot be cancelled '' @ [CHR 0xE2, CHR 0x80, CHR 0x94] @
     '' it may have already started executing.''"

text \<open>
  The column \<open>contract_upgrade_logs.id\<close> is a \<open>BIGINT\<close>. A parameter compared with it
  is read as a \<open>BIGINT\<close> from the text node-postgres sends, which is the number as
  JavaScript prints it. A number of \<open>2^63\<close> or more is refused with an error that quotes
  it. From \<open>10^21\<close> on JavaScript prints a number with an exponent, and PostgreSQL
  refuses that spelling as no integer at all; the model keeps this second error and its
  wording, but quotes the number in plain digits.
\<close>

definition msg_out_of_range_bigint :: "nat \<Rightarrow> string" where
  "msg_out_of_range_bigint n =
     ''value '' @ [CHR 0x22] @ string_of_nat n @ [CHR 0x22] @
     '' is out of range for type bigint''"

definition msg_invalid_bigint :: "nat \<Rightarrow> string" where
  "msg_invalid_bigint n =
     ''invalid input syntax for type bigint: '' @ [CHR 0x22] @ string_of_nat n @ [CHR 0x22]"

text \<open>
  One \<open>UPDATE \<dots> WHERE id = $1 AND status IN ('pending', 'simulated', 'confirmed')
  RETURNING id\<close>; no row updated (\<open>rowCount = 0\<close>) throws. A stored row has an id
  within \<open>BIGINT\<close>, so the range of the parameter shows only where no row is found:
  there the statement updates no row for an id below \<open>2^63\<close>, and raises one of the two
  errors above for a larger one.
\<close>

definition cancelUpgrade :: "nat \<Rightarrow> nat \<Rightarrow> db \<Rightarrow> (thrown + unit) \<times> db" where
  "cancelUpgrade now upgradeLogId s =
     (case contract_upgrade_logs s upgradeLogId of
        None \<Rightarrow>
          if upgradeLogId < 2 ^ 63 then (Inl (Error msg_cannot_cancel), s)
          else if upgradeLogId < 10 ^ 21
          then (Inl (Error (msg_out_of_range_bigint upgradeLogId)), s)
          else (Inl (Error (msg_invalid_bigint upgradeLogId)), s)
      | Some log \<Rightarrow>
          if status log \<in> {Pending, Simulated, Confirmed}
          then (Inr (),
                s\<lparr>contract_upgrade_logs := (contract_upgrade_logs s)
                     (upgradeLogId \<mapsto> log\<lparr>status := Cancelled, completed_at := Some now\<rparr>)\<rparr>)
          else (Inl (Error msg_cannot_cancel), s))"

section \<open>The controller's error mapping\<close>

text \<open>\<open>handleError\<close>: the HTTP status and the \<open>error\<close> field of the body.\<close>

definition handleError :: "thrown \<Rightarrow> nat \<times> string" where
  "handleError e =
     (case e of
        ZodError m \<Rightarrow> (400, ''Validation Error'')
      | _ \<Rightarrow>
        (let msg = message_or [] e in
         if str_includes msg ''invalid'' \<or> str_includes msg ''Invalid'' \<or> str_includes msg ''Invalid secret''
         then (400, ''Invalid admin secret key.'')
         else if str_includes msg ''not found'' then (404, msg)
         else if str_includes msg ''Cannot execute'' \<or> str_includes msg ''cannot be cancelled''
         then (409, msg)
         else (500, ''Internal Server Error'')))"

section \<open>simulateUpgrade\<close>

definition DEFAULT_MIGRATION_STEPS :: "(string \<times> step_status \<times> string option) list" where
  "DEFAULT_MIGRATION_STEPS =
     [(''Verify on-chain contract state'', StepPending, None),
      (''Validate storage schema compatibility'', StepPending, None),
      (''Re-index contract data entries'', StepPending, None),
      (''Emit upgrade audit event'', StepPending, None)]"

definition buildDefaultMigrationSteps :: "MigrationStep list" where
  "buildDefaultMigrationSteps =
     map (\<lambda>(i, (n, st, m)).
            \<lparr>step_id = ''step-'' @ string_of_nat i, step_name = n, step_status = st,
             step_message = m\<rparr>)
         (zip [0 ..< length DEFAULT_MIGRATION_STEPS] DEFAULT_MIGRATION_STEPS)"

subsection \<open>The constraints of \<open>contract_upgrade_logs\<close>\<close>

text \<open>
  Migration 014 declares the hash columns \<open>VARCHAR(64)\<close> with the check
  \<open>~ '^[0-9a-f]{64}$'\<close>, \<open>initiated_by\<close> as \<open>VARCHAR(255)\<close>, and the table constraint
  \<open>chk_different_hashes CHECK (new_wasm_hash <> previous_wasm_hash)\<close>. A value assigned to
  a \<open>VARCHAR(n)\<close> column is refused when it is longer than \<open>n\<close>, unless all it has beyond
  \<open>n\<close> is spaces, which are cut off. A refused row raises an error in the \<open>INSERT\<close>, which
  \<open>simulateUpgrade\<close> does not catch.
\<close>

definition varchar :: "nat \<Rightarrow> string \<Rightarrow> string option" where
  "varchar n v =
     (if length v \<le> n then Some v
      else if list_all (\<lambda>c. c = CHR '' '') (drop n v) then Some (take n v)
      else None)"

definition msg_too_long :: "string \<Rightarrow> string" where
  "msg_too_long n = ''value too long for type character varying('' @ n @ '')''"

definition msg_check_violation :: "string \<Rightarrow> string" where
  "msg_check_violation c =
     ''new row for relation '' @ [CHR 0x22] @ ''contract_upgrade_logs'' @ [CHR 0x22] @
     '' violates check constraint '' @ [CHR 0x22] @ c @ [CHR 0x22]"

definition msg_duplicate_key :: string where
  "msg_duplicate_key =
     ''duplicate key value violates unique constraint '' @ [CHR 0x22] @
     ''contract_upgrade_logs_pkey'' @ [CHR 0x22]"

text \<open>
  The \<open>INSERT \<dots> RETURNING id\<close> of \<open>simulateUpgrade\<close>. The id is drawn from the sequence,
  which does not give it back when the row is refused. Check constraints are tried in the
  order of their names.
\<close>

definition insert_upgrade_log ::
  "nat \<Rightarrow> nat \<Rightarrow> string \<Rightarrow> string \<Rightarrow> MigrationStep list \<Rightarrow> string \<Rightarrow> string option \<Rightarrow> db
     \<Rightarrow> (thrown + nat) \<times> db" where
  "insert_upgrade_log now registryId previous new steps initiatedBy notes s =
     (let newId = upgrade_logs_seq s;
          s' = s\<lparr>upgrade_logs_seq := Suc newId\<rparr>
      in
      case varchar 64 previous of
        None \<Rightarrow> (Inl (Error (msg_too_long ''64'')), s')
      | Some p \<Rightarrow>
      (case varchar 64 new of
        None \<Rightarrow> (Inl (Error (msg_too_long ''64'')), s')
      | Some n \<Rightarrow>
      (case varchar 255 initiatedBy of
        None \<Rightarrow> (Inl (Error (msg_too_long ''255'')), s')
      | Some who \<Rightarrow>
          if n = p then (Inl (Error (msg_check_violation ''chk_different_hashes'')), s')
          else if \<not> hash_column_check n
          then (Inl (Error (msg_check_violation
                  ''contract_upgrade_logs_new_wasm_hash_check'')), s')
          else if \<not> hash_column_check p
          then (Inl (Error (msg_check_violation
                  ''contract_upgrade_logs_previous_wasm_hash_check'')), s')
          else if contract_upgrade_logs s newId \<noteq> None
          then (Inl (Error msg_duplicate_key), s')
          else
            (Inr newId,
             s'\<lparr>contract_upgrade_logs := (contract_upgrade_logs s)
                  (newId \<mapsto>
                    \<lparr>registry_id = registryId, previous_wasm_hash = p, new_wasm_hash = n,
                     status = Pending, simulation_result = None, tx_hash = None,
                     migration_steps = steps, initiated_by = who, log_notes = notes,
                     error_message = None, created_at = now, completed_at = None\<rparr>)\<rparr>))))"

subsection \<open>The simulation\<close>

text \<open>
  What the \<open>try\<close> block of \<open>simulateUpgrade\<close> meets. Something in it throws; or
  \<open>getAccount\<close> fails, and \<open>rawRpcSimulate\<close> asks for the fee statistics (the request
  throws, or answers with \<open>sorobanInclusionFee.p50\<close> or without it); or the account loads
  and \<open>simulateTransaction\<close> answers, with an error, or with \<open>minResourceFee\<close>,
  \<open>cost.cpuInsns\<close>, \<open>cost.memBytes\<close> (each possibly absent), \<open>latestLedger\<close>, the
  serialised transaction data (absent when serialising throws) and whether it is a restore
  response.
\<close>

datatype fee_stats_rpc = FeeStatsThrows | FeeStats "string option"

datatype simulate_response =
    SimulationError nat string
  | SimulationOk "string option" "string option" "string option" nat "string option" bool

datatype simulate_rpc =
    SimulateThrows thrown
  | AccountUnavailable fee_stats_rpc
  | AccountLoaded simulate_response

text \<open>
  \<open>stroopsToXlm\<close> divides a floating-point number and formats it; it is a parameter
  \<open>xlm\<close> of the functions below, which only store its result.
\<close>

definition rawRpcSimulate :: "(string \<Rightarrow> string) \<Rightarrow> fee_stats_rpc \<Rightarrow> UpgradeSimulationResult" where
  "rawRpcSimulate xlm rpc =
     (case rpc of
        FeeStats r \<Rightarrow>
          (let p50 = (case r of Some v \<Rightarrow> v | None \<Rightarrow> ''1000000'') in
           \<lparr>success = True, estimatedFee = p50, estimatedFeeXlm = xlm p50,
            cpuInstructions = ''N/A'', memoryBytes = ''N/A'', latestLedger = 0,
            transactionData = None,
            warnings = [''Source account not on-chain '' @ [CHR 0xE2, CHR 0x80, CHR 0x94] @
                        '' fee is a network median estimate.''],
            error = None\<rparr>)
      | FeeStatsThrows \<Rightarrow>
          \<lparr>success = True, estimatedFee = ''1000000'', estimatedFeeXlm = xlm ''1000000'',
           cpuInstructions = ''N/A'', memoryBytes = ''N/A'', latestLedger = 0,
           transactionData = None,
           warnings = [''Could not reach RPC for fee estimate. Default shown.''],
           error = None\<rparr>)"

definition failed_simulation :: "nat \<Rightarrow> string \<Rightarrow> UpgradeSimulationResult" where
  "failed_simulation latest msg =
     \<lparr>success = False, estimatedFee = ''0'', estimatedFeeXlm = ''0.0000000'',
      cpuInstructions = ''0'', memoryBytes = ''0'', latestLedger = latest,
      transactionData = None, warnings = [], error = Some msg\<rparr>"

definition run_simulation :: "(string \<Rightarrow> string) \<Rightarrow> simulate_rpc \<Rightarrow> UpgradeSimulationResult" where
  "run_simulation xlm rpc =
     (case rpc of
        SimulateThrows err \<Rightarrow> failed_simulation 0 (message_or ''Simulation failed'' err)
      | AccountUnavailable fee \<Rightarrow> rawRpcSimulate xlm fee
      | AccountLoaded (SimulationError latest e) \<Rightarrow> failed_simulation latest e
      | AccountLoaded (SimulationOk minResourceFee cpuInsns memBytes latest txData restore) \<Rightarrow>
          (let minFee = (case minResourceFee of Some v \<Rightarrow> v | None \<Rightarrow> ''0'') in
           \<lparr>success = True, estimatedFee = minFee, estimatedFeeXlm = xlm minFee,
            cpuInstructions = (case cpuInsns of Some v \<Rightarrow> v | None \<Rightarrow> ''0''),
            memoryBytes = (case memBytes of Some v \<Rightarrow> v | None \<Rightarrow> ''0''),
            latestLedger = latest, transactionData = txData,
            warnings = (if restore then [''Ledger entry restoration required before upgrade.'']
                        else []),
            error = None\<rparr>))"

text \<open>
  \<open>simulateUpgrade\<close> up to and including the \<open>INSERT\<close>: the part of the function that runs
  before the \<open>try\<close> block. It takes no RPC outcome: no RPC has been called yet.
\<close>

definition create_pending_log ::
  "nat \<Rightarrow> nat \<Rightarrow> string \<Rightarrow> string \<Rightarrow> string option \<Rightarrow> db \<Rightarrow> (thrown + nat) \<times> db" where
  "create_pending_log now registryId newWasmHash initiatedBy notes s =
     (case getContract s registryId of
        None \<Rightarrow> (Inl (Error ''Contract not found in registry.''), s)
      | Some contract \<Rightarrow>
          insert_upgrade_log now registryId (current_wasm_hash contract)
            (toLowerCase newWasmHash) buildDefaultMigrationSteps initiatedBy notes s)"

text \<open>
  The closing \<open>UPDATE\<close> of \<open>simulateUpgrade\<close>:
  \<open>SET status = $1, simulation_result = $2, error_message = $3, completed_at = CASE WHEN
  $1 = 'failed' THEN NOW() ELSE NULL END WHERE id = $4\<close>. The new status is a string, which
  node-postgres sends without a type. PostgreSQL gives a parameter one type for the whole
  statement; here it deduces \<open>text\<close> from the comparison \<open>$1 = 'failed'\<close> and
  \<open>character varying\<close> from the assignment to \<open>status\<close>, a \<open>VARCHAR(30)\<close> column, and
  refuses the statement when it parses it, whatever the values are. No row is touched.
  The statement stands outside the \<open>try\<close> block, so the error leaves \<open>simulateUpgrade\<close>.
\<close>

definition msg_inconsistent_types :: string where
  "msg_inconsistent_types = ''inconsistent types deduced for parameter $1''"

definition record_simulation :: "nat \<Rightarrow> nat \<Rightarrow> UpgradeSimulationResult \<Rightarrow> db \<Rightarrow> thrown + db" where
  "record_simulation now upgradeLogId simulation s = Inl (Error msg_inconsistent_types)"

definition simulateUpgrade ::
  "(string \<Rightarrow> string) \<Rightarrow> simulate_rpc \<Rightarrow> nat \<Rightarrow> nat \<Rightarrow> string \<Rightarrow> string \<Rightarrow> string option \<Rightarrow> db
     \<Rightarrow> (thrown + nat \<times> UpgradeSimulationResult) \<times> db" where
  "simulateUpgrade xlm rpc now registryId newWasmHash initiatedBy notes s =
     (case create_pending_log now registryId newWasmHash initiatedBy notes s of
        (Inl err, s1) \<Rightarrow> (Inl err, s1)
      | (Inr upgradeLogId, s1) \<Rightarrow>
          (let simulation = run_simulation xlm rpc in
           case record_simulation now upgradeLogId simulation s1 of
             Inl err \<Rightarrow> (Inl err, s1)
           | Inr s2 \<Rightarrow> (Inr (upgradeLogId, simulation), s2)))"

section \<open>executeUpgrade\<close>

text \<open>
  What the \<open>try\<close> block of \<open>executeUpgrade\<close> meets, call by call: \<open>Keypair.fromSecret\<close>
  gives the public key or throws; \<open>getAccount\<close> throws or not; the footprint simulation
  throws, succeeds, reports an error, or is neither (a restore response); \<open>sendTransaction\<close>
  throws, answers \<open>ERROR\<close> (with or without an \<open>errorResult\<close>), or accepts the
  transaction under a hash; \<open>getTransaction\<close>, at each polling attempt, throws or reports
  \<open>SUCCESS\<close>, \<open>FAILED\<close>, or something else (\<open>NOT_FOUND\<close>). An exception of the SDK
  between two calls (building or signing the transaction) counts with the next call.
\<close>

datatype exec_simulation = ExecSimThrows thrown | ExecSimSuccess | ExecSimError string | ExecSimOther

datatype send_response = SendThrows thrown | SendError "string option" | SendAccepted string

datatype get_transaction = GetTransactionThrows thrown | TxSuccess | TxFailed | TxNotFound

record execute_rpc =
  fromSecret :: "string \<Rightarrow> thrown + string"
  getAccount :: "thrown option"
  simulateTransaction :: exec_simulation
  sendTransaction :: send_response
  getTransaction :: "nat \<Rightarrow> get_transaction"

definition MAX_POLLS :: nat where
  "MAX_POLLS = 10"

function pollForConfirmation :: "(nat \<Rightarrow> get_transaction) \<Rightarrow> string \<Rightarrow> nat \<Rightarrow> thrown + string" where
  "pollForConfirmation getTx hash attempt =
     (if attempt < MAX_POLLS then
        (case getTx attempt of
           GetTransactionThrows err \<Rightarrow> Inl err
         | TxSuccess \<Rightarrow> Inr hash
         | TxFailed \<Rightarrow> Inl (Error (''Transaction '' @ hash @ '' failed on-chain.''))
         | TxNotFound \<Rightarrow> pollForConfirmation getTx hash (Suc attempt))
      else Inl (Error (''Transaction '' @ hash @ '' did not confirm within 50s.'')))"
  by pat_completeness auto
termination
  by (relation "measure (\<lambda>(getTx, hash, attempt). MAX_POLLS - attempt)") auto

declare pollForConfirmation.simps [simp del]

text \<open>
  The registry \<open>UPDATE\<close>, on the row the log points to. The new value of
  \<open>current_wasm_hash\<close> passes through the column's type and check as in the log table;
  a refused value raises an error inside the \<open>try\<close> block. No row to update is no error.
\<close>

definition update_registry :: "nat \<Rightarrow> nat \<Rightarrow> string \<Rightarrow> string \<Rightarrow> db \<Rightarrow> thrown + db" where
  "update_registry now upgradeLogId newHash publicKey s =
     (case contract_upgrade_logs s upgradeLogId of
        None \<Rightarrow> Inr s
      | Some log \<Rightarrow>
          (case contract_registry s (registry_id log) of
             None \<Rightarrow> Inr s
           | Some contract \<Rightarrow>
               (case varchar 64 newHash of
                  None \<Rightarrow> Inl (Error (msg_too_long ''64''))
                | Some h \<Rightarrow>
               (case varchar 255 publicKey of
                  None \<Rightarrow> Inl (Error (msg_too_long ''255''))
                | Some who \<Rightarrow>
                    if \<not> hash_column_check h
                    then Inl (Error (''new row for relation '' @ [CHR 0x22] @
                           ''contract_registry'' @ [CHR 0x22] @ '' violates check constraint '' @
                           [CHR 0x22] @ ''contract_registry_current_wasm_hash_check'' @ [CHR 0x22]))
                    else
                      Inr (s\<lparr>contract_registry := (contract_registry s)
                             (registry_id log \<mapsto>
                                contract\<lparr>current_wasm_hash := h, last_upgraded_at := Some now,
                                         last_upgraded_by := Some who\<rparr>)\<rparr>)))))"

text \<open>
  The body of the \<open>try\<close> block: the transaction hash and the database after the registry
  update, or what was thrown. The database is only written by the last statement.
\<close>

definition submit_upgrade ::
  "execute_rpc \<Rightarrow> nat \<Rightarrow> nat \<Rightarrow> string \<Rightarrow> UpgradeLog \<Rightarrow> db \<Rightarrow> thrown + string \<times> db" where
  "submit_upgrade rpc now upgradeLogId adminSecret log s =
     (case fromSecret rpc adminSecret of
        Inl err \<Rightarrow> Inl err
      | Inr publicKey \<Rightarrow>
     (case getAccount rpc of
        Some err \<Rightarrow> Inl err
      | None \<Rightarrow>
     (case (case contract_upgrade_logs s upgradeLogId of
              None \<Rightarrow> None
            | Some ul \<Rightarrow> map_option contract_id (contract_registry s (registry_id ul))) of
        None \<Rightarrow> Inl (Error ''Contract ID not found for upgrade log.'')
      | Some contractId \<Rightarrow>
          if contractId = [] then Inl (Error ''Contract ID not found for upgrade log.'')
          else
     (case simulateTransaction rpc of
        ExecSimThrows err \<Rightarrow> Inl err
      | ExecSimError e \<Rightarrow> Inl (Error e)
      | ExecSimOther \<Rightarrow> Inl (Error ''Simulation failed before submission'')
      | ExecSimSuccess \<Rightarrow>
     (case sendTransaction rpc of
        SendThrows err \<Rightarrow> Inl err
      | SendError e \<Rightarrow>
          Inl (Error (case e of Some m \<Rightarrow> m | None \<Rightarrow> ''Transaction submission failed''))
      | SendAccepted hash \<Rightarrow>
     (case pollForConfirmation (getTransaction rpc) hash 0 of
        Inl err \<Rightarrow> Inl err
      | Inr txHash \<Rightarrow>
     (case update_registry now upgradeLogId (new_wasm_hash log) publicKey s of
        Inl err \<Rightarrow> Inl err
      | Inr s' \<Rightarrow> Inr (txHash, s'))))))))"

text \<open>An \<open>UPDATE\<close> of the log row with the given id; without such a row nothing changes.\<close>

definition set_log :: "nat \<Rightarrow> (UpgradeLog \<Rightarrow> UpgradeLog) \<Rightarrow> db \<Rightarrow> db" where
  "set_log upgradeLogId f s =
     (case contract_upgrade_logs s upgradeLogId of
        None \<Rightarrow> s
      | Some log \<Rightarrow>
          s\<lparr>contract_upgrade_logs := (contract_upgrade_logs s)(upgradeLogId \<mapsto> f log)\<rparr>)"

text \<open>A string between single quotes.\<close>

definition quoted :: "string \<Rightarrow> string" where
  "quoted v = [CHR 0x27] @ v @ [CHR 0x27]"

definition msg_cannot_execute :: "log_status \<Rightarrow> string" where
  "msg_cannot_execute st =
     ''Cannot execute upgrade in status '' @ quoted (status_name st) @
     ''. Expected '' @ quoted ''simulated'' @ '' or '' @ quoted ''confirmed'' @ ''.''"

record ExecuteUpgradeResult =
  res_upgradeLogId :: nat
  res_txHash :: string
  res_status :: log_status

text \<open>
  \<open>executeUpgrade\<close>. The first query joins the log with its registry row, so a log whose
  registry row is gone is not found. The function returns once the transaction hash is
  written: \<open>runMigrationSteps\<close> is started without being awaited and has written nothing
  by then; it is the next function.
\<close>

definition executeUpgrade ::
  "execute_rpc \<Rightarrow> nat \<Rightarrow> nat \<Rightarrow> string \<Rightarrow> db \<Rightarrow> (thrown + ExecuteUpgradeResult) \<times> db" where
  "executeUpgrade rpc now logId adminSecret s =
     (case (case contract_upgrade_logs s logId of
              None \<Rightarrow> None
            | Some ul \<Rightarrow>
                (case contract_registry s (registry_id ul) of
                   None \<Rightarrow> None
                 | Some cr \<Rightarrow> Some ul)) of
        None \<Rightarrow> (Inl (Error ''Upgrade log not found.''), s)
      | Some log \<Rightarrow>
          if status log \<notin> {Simulated, Confirmed}
          then (Inl (Error (msg_cannot_execute (status log))), s)
          else
            (let s1 = set_log logId (\<lambda>l. l\<lparr>status := Executing\<rparr>) s in
             case submit_upgrade rpc now logId adminSecret log s1 of
               Inl execError \<Rightarrow>
                 (Inl execError,
                  set_log logId
                    (\<lambda>l. l\<lparr>status := Failed,
                           error_message := Some (message_or ''Execution failed'' execError),
                           completed_at := Some now\<rparr>) s1)
             | Inr (hash, s2) \<Rightarrow>
                 (Inr \<lparr>res_upgradeLogId = logId, res_txHash = hash, res_status = Executing\<rparr>,
                  set_log logId (\<lambda>l. l\<lparr>tx_hash := Some hash\<rparr>) s2)))"

section \<open>runMigrationSteps\<close>

text \<open>
  \<open>executeStep\<close> looks at the step's id. Steps 0 and 1 query the registry and throw when
  the row is missing; step 3 writes an audit action; step 2 and any other id only wait.
  \<open>faults\<close> gives, for a step id, what the step's query throws when the query itself
  fails. The result is what was thrown, if anything.
\<close>

definition executeStep ::
  "(string \<Rightarrow> thrown option) \<Rightarrow> db \<Rightarrow> MigrationStep \<Rightarrow> nat \<Rightarrow> thrown option" where
  "executeStep faults s step registryId =
     (if step_id step = ''step-0'' then
        (case faults ''step-0'' of
           Some err \<Rightarrow> Some err
         | None \<Rightarrow>
             (case getContract s registryId of
                None \<Rightarrow> Some (Error ''Contract missing from registry after upgrade.'')
              | Some contract \<Rightarrow> None))
      else if step_id step = ''step-1'' then
        (case faults ''step-1'' of
           Some err \<Rightarrow> Some err
         | None \<Rightarrow>
             (case contract_registry s registryId of
                None \<Rightarrow> Some (Error ''Registry row not found during schema validation.'')
              | Some contract \<Rightarrow> None))
      else if step_id step = ''step-2'' then None
      else if step_id step = ''step-3'' then faults ''step-3''
      else None)"

definition persistMigrationSteps :: "nat \<Rightarrow> MigrationStep list \<Rightarrow> db \<Rightarrow> db" where
  "persistMigrationSteps logId steps s = set_log logId (\<lambda>l. l\<lparr>migration_steps := steps\<rparr>) s"

text \<open>The \<open>for\<close> loop, from index \<open>i\<close> on, with the local array \<open>steps\<close>.\<close>

function migration_loop ::
  "(string \<Rightarrow> thrown option) \<Rightarrow> nat \<Rightarrow> nat \<Rightarrow> nat \<Rightarrow> nat \<Rightarrow> MigrationStep list \<Rightarrow> db \<Rightarrow> db" where
  "migration_loop faults now logId registryId i steps s =
     (if i < length steps then
        (let steps1 = steps[i := (steps ! i)\<lparr>step_status := StepRunning, step_message := None\<rparr>];
             s1 = persistMigrationSteps logId steps1 s
         in
         case executeStep faults s1 (steps1 ! i) registryId of
           None \<Rightarrow>
             (let steps2 = steps1[i := (steps1 ! i)\<lparr>step_status := StepCompleted,
                              step_message := Some ''Step completed successfully.''\<rparr>];
                  s2 = persistMigrationSteps logId steps2 s1
              in migration_loop faults now logId registryId (Suc i) steps2 s2)
         | Some stepErr \<Rightarrow>
             (let msg = message_or ''Step failed'' stepErr;
                  steps2 = steps1[i := (steps1 ! i)\<lparr>step_status := StepFailed,
                              step_message := Some msg\<rparr>];
                  s2 = persistMigrationSteps logId steps2 s1
              in set_log logId
                   (\<lambda>l. l\<lparr>status := Failed,
                          error_message := Some (''Migration step '' @
                            quoted (step_name (steps2 ! i)) @ '' failed: '' @ msg),
                          completed_at := Some now\<rparr>) s2))
      else set_log logId (\<lambda>l. l\<lparr>status := Completed, completed_at := Some now\<rparr>) s)"
  by pat_completeness auto
termination
  by (relation "measure (\<lambda>(faults, now, logId, registryId, i, steps, s). length steps - i)") auto

declare migration_loop.simps [simp del]

definition runMigrationSteps :: "(string \<Rightarrow> thrown option) \<Rightarrow> nat \<Rightarrow> nat \<Rightarrow> db \<Rightarrow> db" where
  "runMigrationSteps faults now logId s =
     (case contract_upgrade_logs s logId of
        None \<Rightarrow> s
      | Some log \<Rightarrow> migration_loop faults now logId (registry_id log) 0 (migration_steps log) s)"

section \<open>The controller\<close>

text \<open>
  The zod schemas. A path parameter is given as the number it is coerced to; a body field
  as the string it holds. The schemas of the ids ask for a positive integer and set no
  upper bound.
\<close>

definition wasmHashSchema :: "string \<Rightarrow> bool" where
  "wasmHashSchema v = (length v = 64 \<and> WASM_HASH_REGEX_test v)"

definition positive_id :: "int \<Rightarrow> nat option" where
  "positive_id n = (if 0 < n then Some (nat n) else None)"

record simulate_body =
  body_newWasmHash :: string
  body_initiatedBy :: string
  body_notes :: "string option"

definition simulateBodySchema :: "simulate_body \<Rightarrow> bool" where
  "simulateBodySchema b =
     (wasmHashSchema (body_newWasmHash b)
      \<and> 56 \<le> length (body_initiatedBy b) \<and> length (body_initiatedBy b) \<le> 64
      \<and> (case body_notes b of None \<Rightarrow> True | Some n \<Rightarrow> length n \<le> 1000))"

definition zod_error :: thrown where
  "zod_error = ZodError ''Validation Error''"

text \<open>
  The actions answer with the HTTP status and a message (the \<open>error\<close> of a failure, the
  \<open>message\<close> of a success when there is one).
\<close>

definition controller_validateHash ::
  "ledger_entries_rpc \<Rightarrow> db \<Rightarrow> int \<Rightarrow> string \<Rightarrow> (nat \<times> string) \<times> validation option" where
  "controller_validateHash rpc s registryId hash =
     (case positive_id registryId of
        None \<Rightarrow> (handleError zod_error, None)
      | Some rid \<Rightarrow>
          if \<not> wasmHashSchema hash then (handleError zod_error, None)
          else
            (case fst (validateWasmHash rpc s rid hash) of
               Inl err \<Rightarrow> (handleError err, None)
             | Inr v \<Rightarrow> ((200, []), Some v)))"

definition controller_simulateUpgrade ::
  "(string \<Rightarrow> string) \<Rightarrow> simulate_rpc \<Rightarrow> nat \<Rightarrow> int \<Rightarrow> simulate_body \<Rightarrow> db \<Rightarrow> (nat \<times> string) \<times> db" where
  "controller_simulateUpgrade xlm rpc now registryId body s =
     (case positive_id registryId of
        None \<Rightarrow> (handleError zod_error, s)
      | Some rid \<Rightarrow>
          if \<not> simulateBodySchema body then (handleError zod_error, s)
          else
            (case simulateUpgrade xlm rpc now rid (body_newWasmHash body) (body_initiatedBy body)
                    (body_notes body) s of
               (Inl err, s') \<Rightarrow> (handleError err, s')
             | (Inr (logId, simulation), s') \<Rightarrow>
                 ((200,
                   if success simulation
                   then ''Simulation passed. Review the diff and confirm to proceed.''
                   else ''Simulation failed. Resolve the reported error before proceeding.''),
                  s')))"

definition controller_executeUpgrade ::
  "execute_rpc \<Rightarrow> nat \<Rightarrow> int \<Rightarrow> string \<Rightarrow> db \<Rightarrow> (nat \<times> string) \<times> db" where
  "controller_executeUpgrade rpc now logId adminSecret s =
     (case positive_id logId of
        None \<Rightarrow> (handleError zod_error, s)
      | Some lid \<Rightarrow>
          if length adminSecret < 56 then (handleError zod_error, s)
          else
            (case executeUpgrade rpc now lid adminSecret s of
               (Inl err, s') \<Rightarrow> (handleError err, s')
             | (Inr r, s') \<Rightarrow>
                 ((200, ''Upgrade transaction submitted. Poll /status for migration progress.''),
                  s')))"

definition controller_cancelUpgrade :: "nat \<Rightarrow> int \<Rightarrow> db \<Rightarrow> (nat \<times> string) \<times> db" where
  "controller_cancelUpgrade now logId s =
     (case positive_id logId of
        None \<Rightarrow> (handleError zod_error, s)
      | Some lid \<Rightarrow>
          (case cancelUpgrade now lid s of
             (Inl err, s') \<Rightarrow> (handleError err, s')
           | (Inr u, s') \<Rightarrow> ((200, ''Upgrade cancelled successfully.''), s')))"

section \<open>The operations of the service that write\<close>

text \<open>
  Every function of \<open>ContractUpgradeService\<close> that issues an \<open>INSERT\<close> or an \<open>UPDATE\<close>,
  with \<open>validateWasmHash\<close>, which only reads. The remaining functions (\<open>listContracts\<close>,
  \<open>getContract\<close>, \<open>getUpgradeLogStatus\<close>, \<open>listUpgradeLogs\<close>) are \<open>SELECT\<close>s.
\<close>

datatype operation =
    OpValidateWasmHash ledger_entries_rpc nat string
  | OpSimulateUpgrade "string \<Rightarrow> string" simulate_rpc nat string string "string option"
  | OpExecuteUpgrade execute_rpc nat string
  | OpRunMigrationSteps "string \<Rightarrow> thrown option" nat
  | OpCancelUpgrade nat

fun apply_operation :: "nat \<Rightarrow> operation \<Rightarrow> db \<Rightarrow> db" where
  "apply_operation now (OpValidateWasmHash rpc registryId hash) s = s"
| "apply_operation now (OpSimulateUpgrade xlm rpc registryId hash who notes) s =
     snd (simulateUpgrade xlm rpc now registryId hash who notes s)"
| "apply_operation now (OpExecuteUpgrade rpc logId adminSecret) s =
     snd (executeUpgrade rpc now logId adminSecret s)"
| "apply_operation now (OpRunMigrationSteps faults logId) s =
     runMigrationSteps faults now logId s"
| "apply_operation now (OpCancelUpgrade logId) s = snd (cancelUpgrade now logId s)"

section \<open>The event indexer\<close>

record RpcContractEvent =
  ev_id :: "string option"
  ev_type :: "string option"
  ev_txHash :: "string option"
  ledger :: "int option"
  ledgerSequence :: "int option"
  contractId :: "string option"
  topic :: "string list option"

text \<open>
  A row of \<open>contract_events\<close>; \<open>payload\<close> is the whole event (its JSON text in the
  source). The table keeps its rows in the order they were inserted.
\<close>

record contract_event =
  event_id :: string
  ce_contract_id :: string
  event_type :: string
  payload :: RpcContractEvent
  ledger_sequence :: int
  ce_tx_hash :: "string option"
  ce_created_at :: nat

record index_state_row =
  last_ledger_sequence :: int
  updated_at :: nat

record indexer =
  contract_events :: "contract_event list"
  contract_event_index_state :: "string \<rightharpoonup> index_state_row"
  poll_lock :: bool

record indexer_config =
  indexed_contract_ids :: "string list"
  DEFAULT_START_LEDGER :: int

definition INDEX_STATE_KEY :: string where
  "INDEX_STATE_KEY = ''soroban_contract_events''"

text \<open>\<open>v || ''\<close> on an optional string: an absent and an empty string are both falsy.\<close>

definition truthy :: "string option \<Rightarrow> string option" where
  "truthy v = (case v of None \<Rightarrow> None | Some x \<Rightarrow> if x = [] then None else Some x)"

definition extractEventType :: "RpcContractEvent \<Rightarrow> string" where
  "extractEventType event =
     (case truthy (ev_type event) of
        Some ty \<Rightarrow> ty
      | None \<Rightarrow>
          (case topic event of
             Some (t0 # ts) \<Rightarrow> t0
           | _ \<Rightarrow> ''unknown''))"

text \<open>
  The row the loop body builds for an event, or \<open>None\<close> when the body \<open>continue\<close>s.
  Ledger sequences are integers (the field is a JSON number; fractions and values too
  large for a plain decimal rendering are outside the model).
\<close>

definition event_row :: "nat \<Rightarrow> RpcContractEvent \<Rightarrow> contract_event option" where
  "event_row now event =
     (case truthy (contractId event) of
        None \<Rightarrow> None
      | Some cid \<Rightarrow>
          (let seq = (case ledgerSequence event of
                        Some v \<Rightarrow> v
                      | None \<Rightarrow> (case ledger event of Some v \<Rightarrow> v | None \<Rightarrow> 0))
           in
           if seq \<le> 0 then None
           else
             Some \<lparr>event_id =
                     (case truthy (ev_id event) of
                        Some i \<Rightarrow> i
                      | None \<Rightarrow>
                          cid @ ''-'' @ string_of_nat (nat seq) @ ''-'' @
                          (case truthy (ev_txHash event) of Some h \<Rightarrow> h | None \<Rightarrow> [])),
                   ce_contract_id = cid,
                   event_type = extractEventType event,
                   payload = event,
                   ledger_sequence = seq,
                   ce_tx_hash = truthy (ev_txHash event),
                   ce_created_at = now\<rparr>))"

definition event_key :: "contract_event \<Rightarrow> string \<times> string" where
  "event_key r = (event_id r, ce_contract_id r)"

text \<open>\<open>INSERT \<dots> ON CONFLICT (event_id, contract_id) DO NOTHING\<close>.\<close>

definition insert_event :: "contract_event \<Rightarrow> contract_event list \<Rightarrow> contract_event list" where
  "insert_event r rows = (if event_key r \<in> set (map event_key rows) then rows else rows @ [r])"

text \<open>The \<open>for\<close> loop over the events, with \<open>maxLedger\<close> and the table.\<close>

fun index_events ::
  "nat \<Rightarrow> RpcContractEvent list \<Rightarrow> int \<Rightarrow> contract_event list \<Rightarrow> int \<times> contract_event list" where
  "index_events now [] maxLedger rows = (maxLedger, rows)"
| "index_events now (event # events) maxLedger rows =
     (case event_row now event of
        None \<Rightarrow> index_events now events maxLedger rows
      | Some r \<Rightarrow>
          index_events now events (max maxLedger (ledger_sequence r)) (insert_event r rows))"

definition lastIndexed_of :: "indexer_config \<Rightarrow> indexer \<Rightarrow> int" where
  "lastIndexed_of cfg s =
     (case contract_event_index_state s INDEX_STATE_KEY of
        None \<Rightarrow> DEFAULT_START_LEDGER cfg
      | Some row \<Rightarrow> last_ledger_sequence row)"

definition advance_checkpoint :: "nat \<Rightarrow> int \<Rightarrow> indexer \<Rightarrow> indexer" where
  "advance_checkpoint now maxLedger s =
     (case contract_event_index_state s INDEX_STATE_KEY of
        None \<Rightarrow> s
      | Some row \<Rightarrow>
          s\<lparr>contract_event_index_state := (contract_event_index_state s)
               (INDEX_STATE_KEY \<mapsto> \<lparr>last_ledger_sequence = maxLedger, updated_at = now\<rparr>)\<rparr>)"

text \<open>
  \<open>pollOnce\<close>. \<open>fetchContractEvents\<close> is the RPC: given the start ledger and the contract
  ids it throws or returns the events. The \<open>catch\<close> block logs and the \<open>finally\<close> block
  releases the lock.
\<close>

definition pollOnce ::
  "indexer_config \<Rightarrow> (int \<Rightarrow> string list \<Rightarrow> thrown + RpcContractEvent list) \<Rightarrow> nat \<Rightarrow> indexer
     \<Rightarrow> indexer" where
  "pollOnce cfg fetchContractEvents now s =
     (if poll_lock s then s
      else
        (let s0 = s\<lparr>poll_lock := True\<rparr>;
             contracts = indexed_contract_ids cfg;
             finished =
               (if contracts = [] then s0
                else
                  (let lastIndexed = lastIndexed_of cfg s0;
                       startLedger = max (lastIndexed + 1) (DEFAULT_START_LEDGER cfg)
                   in
                   case fetchContractEvents startLedger contracts of
                     Inl err \<Rightarrow> s0
                   | Inr events \<Rightarrow>
                       if events = [] then s0
                       else
                         (case index_events now events lastIndexed (contract_events s0) of
                            (maxLedger, rows) \<Rightarrow>
                              (let s1 = s0\<lparr>contract_events := rows\<rparr> in
                               if maxLedger > lastIndexed
                               then advance_checkpoint now maxLedger s1
                               else s1))))
         in finished\<lparr>poll_lock := False\<rparr>))"

section \<open>Notions used in the statements\<close>


text \<open>
  What the loop leaves of a step it completed and of a step that failed with a message,
  and of the whole array when, started at index \<open>i\<close>, it fails at index \<open>k\<close>.
\<close>

definition step_completed :: "MigrationStep \<Rightarrow> MigrationStep" where
  "step_completed st =
     st\<lparr>step_status := StepCompleted, step_message := Some ''Step completed successfully.''\<rparr>"

definition step_failed :: "string \<Rightarrow> MigrationStep \<Rightarrow> MigrationStep" where
  "step_failed msg st = st\<lparr>step_status := StepFailed, step_message := Some msg\<rparr>"

definition steps_after_failure :: "nat \<Rightarrow> nat \<Rightarrow> string \<Rightarrow> MigrationStep list \<Rightarrow> MigrationStep list" where
  "steps_after_failure i k msg steps =
     map (\<lambda>j. if j < i then steps ! j
              else if j < k then step_completed (steps ! j)
              else if j = k then step_failed msg (steps ! j)
              else steps ! j) [0 ..< length steps]"

text \<open>
  The checkpoint: the \<open>last_ledger_sequence\<close> of the indexer's row of
  \<open>contract_event_index_state\<close>, when the row exists; the order in which a checkpoint
  does not decrease (a missing row stays missing); the ledger sequences of the events the
  loop does not skip; and a run of poll cycles, each with its RPC and its time.
\<close>

definition checkpoint :: "indexer \<Rightarrow> int option" where
  "checkpoint s = map_option last_ledger_sequence (contract_event_index_state s INDEX_STATE_KEY)"

definition checkpoint_le :: "int option \<Rightarrow> int option \<Rightarrow> bool" where
  "checkpoint_le a b =
     (case a of
        None \<Rightarrow> b = None
      | Some x \<Rightarrow> (case b of None \<Rightarrow> False | Some y \<Rightarrow> x \<le> y))"

definition considered_ledgers :: "nat \<Rightarrow> RpcContractEvent list \<Rightarrow> int list" where
  "considered_ledgers now events = map ledger_sequence (List.map_filter (event_row now) events)"

definition poll_all ::
  "indexer_config \<Rightarrow> ((int \<Rightarrow> string list \<Rightarrow> thrown + RpcContractEvent list) \<times> nat) list
     \<Rightarrow> indexer \<Rightarrow> indexer" where
  "poll_all cfg calls s = fold (\<lambda>(rpc, now). pollOnce cfg rpc now) calls s"

section \<open>Fixtures\<close>

text \<open>
  The first contract of the seed of migration 014, an upgrade attempt on it in a given
  status, and the database holding the two.
\<close>

definition hash_a :: string where
  "hash_a = replicate 64 (CHR ''a'')"

definition hash_b :: string where
  "hash_b = replicate 64 (CHR ''b'')"

definition seed_contract :: ContractRecord where
  "seed_contract =
     \<lparr>cr_name = ''Bulk Payment'', description = None, network = ''TESTNET'',
      contract_id = ''CAAAAAAAAAAAAAAAAAAAAAAAAAAAAAAAAAAAAAAAAAAAAAAAAAAABSC4'',
      current_wasm_hash = hash_a, version = ''1.0.0'', last_upgraded_at = None,
      last_upgraded_by = None, cr_created_at = 0\<rparr>"

definition example_log :: "log_status \<Rightarrow> UpgradeLog" where
  "example_log st =
     \<lparr>registry_id = 1, previous_wasm_hash = hash_a, new_wasm_hash = hash_b, status = st,
      simulation_result = None, tx_hash = None, migration_steps = buildDefaultMigrationSteps,
      initiated_by = ''GADMIN'', log_notes = None, error_message = None, created_at = 0,
      completed_at = None\<rparr>"

definition example_db :: "log_status \<Rightarrow> db" where
  "example_db st =
     \<lparr>contract_registry = [1 \<mapsto> seed_contract],
      contract_upgrade_logs = [1 \<mapsto> example_log st],
      upgrade_logs_seq = 2\<rparr>"

text \<open>
  The uppercase spelling of a hash, a string that is no hash, an administrator's address of the
  length the controller asks for, a request body, a simulation that succeeds, and a fee
  formatter.
\<close>

definition hash_B_upper :: string where
  "hash_B_upper = replicate 64 (CHR ''B'')"

definition hash_g :: string where
  "hash_g = replicate 64 (CHR ''g'')"

definition admin_key :: string where
  "admin_key = CHR ''G'' # replicate 55 (CHR ''A'')"

definition example_body :: "string \<Rightarrow> simulate_body" where
  "example_body h =
     \<lparr>body_newWasmHash = h, body_initiatedBy = admin_key, body_notes = Some ''routine upgrade''\<rparr>"

definition simulation_ok :: simulate_rpc where
  "simulation_ok = AccountLoaded (SimulationOk (Some ''1000000'') None None 100 None False)"

definition plain_xlm :: "string \<Rightarrow> string" where
  "plain_xlm v = v"

text \<open>
  The error PostgreSQL raises for the id 9223372036854776000, which is above \<open>2^63\<close>.
\<close>

definition big_id_message :: string where
  "big_id_message =
     ''value '' @ [CHR 0x22] @ ''9223372036854776000'' @ [CHR 0x22] @
     '' is out of range for type bigint''"

text \<open>
  An RPC that carries the upgrade through: the transaction is accepted under the hash
  \<open>deadbeef\<close> and confirmed at the third polling attempt.
\<close>

definition confirming_rpc :: execute_rpc where
  "confirming_rpc =
     \<lparr>fromSecret = (\<lambda>secret. Inr ''GADMIN''), getAccount = None,
      simulateTransaction = ExecSimSuccess, sendTransaction = SendAccepted ''deadbeef'',
      getTransaction = (\<lambda>attempt. if attempt < 2 then TxNotFound else TxSuccess)\<rparr>"

text \<open>
  Two fault assignments: the query of step 1 fails; every query after step 0 fails.
\<close>

definition step1_fault :: "string \<Rightarrow> thrown option" where
  "step1_fault i = (if i = ''step-1'' then Some (Error ''connection lost'') else None)"

definition late_faults :: "string \<Rightarrow> thrown option" where
  "late_faults i = (if i = ''step-0'' then None else Some (Error ''connection lost''))"

text \<open>
  Fixtures of the indexer: one contract, a checkpoint at ledger 99, and a page of three
  events out of ledger order, the first without an id of its own, the second without a
  contract id (skipped by the loop), the third with both; an RPC that always returns
  this page and one that always fails.
\<close>

definition example_cfg :: indexer_config where
  "example_cfg = \<lparr>indexed_contract_ids = [''CBULK''], DEFAULT_START_LEDGER = 0\<rparr>"

definition event_without_id :: RpcContractEvent where
  "event_without_id =
     \<lparr>ev_id = None, ev_type = None, ev_txHash = Some ''cd34'', ledger = None,
      ledgerSequence = Some 105, contractId = Some ''CBULK'', topic = Some [''transfer'']\<rparr>"

definition event_without_contract :: RpcContractEvent where
  "event_without_contract =
     \<lparr>ev_id = Some ''0000000200-1'', ev_type = Some ''contract'', ev_txHash = None,
      ledger = Some 200, ledgerSequence = None, contractId = None, topic = None\<rparr>"

definition event_with_id :: RpcContractEvent where
  "event_with_id =
     \<lparr>ev_id = Some ''0000000100-1'', ev_type = Some ''contract'', ev_txHash = Some ''ab12'',
      ledger = Some 100, ledgerSequence = None, contractId = Some ''CBULK'', topic = None\<rparr>"

definition example_events :: "RpcContractEvent list" where
  "example_events = [event_without_id, event_without_contract, event_with_id]"

definition example_indexer :: indexer where
  "example_indexer =
     \<lparr>contract_events = [],
      contract_event_index_state =
        [INDEX_STATE_KEY \<mapsto> \<lparr>last_ledger_sequence = 99, updated_at = 0\<rparr>],
      poll_lock = False\<rparr>"

definition fixture_rpc :: "int \<Rightarrow> string list \<Rightarrow> thrown + RpcContractEvent list" where
  "fixture_rpc start ids = Inr example_events"

definition failing_rpc :: "int \<Rightarrow> string list \<Rightarrow> thrown + RpcContractEvent list" where
  "failing_rpc start ids = Inl (Error ''getEvents RPC failed with status 503'')"

section \<open>Properties of the upgrade service\<close>

subsection \<open>Characters and hashes\<close>

lemma lower_char_hex_table: "list_all (\<lambda>c. lower_char c = c) ''0123456789abcdef''"
  by code_simp

lemma lower_char_fix: "hex_lower c \<Longrightarrow> lower_char c = c"
  using lower_char_hex_table unfolding hex_lower_def list_all_iff by blast



lemma hex_lower_table: "list_all hex_any_case ''0123456789abcdef''"
  by code_simp

lemma hex_lower_any: "hex_lower c \<Longrightarrow> hex_any_case c"
  using hex_lower_table unfolding hex_lower_def[of c] list_all_iff by blast

lemma toLowerCase_fix: "list_all hex_lower v \<Longrightarrow> toLowerCase v = v"
  by (induction v) (simp_all add: toLowerCase_def lower_char_fix)


lemma check_imp_regex: "hash_column_check v \<Longrightarrow> WASM_HASH_REGEX_test v"
  by (simp add: WASM_HASH_REGEX_test_def hash_column_check_def list_all_iff hex_lower_any)

lemma hash_a_check: "hash_column_check hash_a"
  by code_simp

lemma hash_b_check: "hash_column_check hash_b"
  by code_simp

lemma hash_a_b: "hash_a \<noteq> hash_b"
  by code_simp

subsection \<open>The messages the controller recognises\<close>

lemma handleError_cannot_cancel:
  "handleError (Error msg_cannot_cancel) = (409, msg_cannot_cancel)"
  by code_simp

lemma cannot_execute_table:
  "list_all (\<lambda>st. handleError (Error (msg_cannot_execute st)) = (409, msg_cannot_execute st)
        \<and> str_includes (msg_cannot_execute st) (quoted (status_name st)))
     [Pending, Executing, Completed, Failed, Cancelled]"
  by code_simp

lemma cannot_execute_409:
  assumes "st \<noteq> Simulated" "st \<noteq> Confirmed"
  shows "handleError (Error (msg_cannot_execute st)) = (409, msg_cannot_execute st)"
    and "str_includes (msg_cannot_execute st) (quoted (status_name st))"
  using assms cannot_execute_table by (cases st; simp)+

subsection \<open>executeUpgrade refuses a log that is not simulated or confirmed\<close>

text \<open>
  C7. For every upgrade log (with its registry row) whose status is neither \<open>simulated\<close>
  nor \<open>confirmed\<close>, \<open>executeUpgrade\<close> throws an error whose message quotes the log's
  actual status, which the controller answers with 409, and the database is left as it
  was, the log's status with it.
\<close>

theorem executeUpgrade_wrong_status:
  assumes "contract_upgrade_logs s logId = Some log"
    and "contract_registry s (registry_id log) = Some contract"
    and "status log \<noteq> Simulated" and "status log \<noteq> Confirmed"
  shows "executeUpgrade rpc now logId adminSecret s
           = (Inl (Error (msg_cannot_execute (status log))), s)
       \<and> str_includes (msg_cannot_execute (status log)) (quoted (status_name (status log)))
       \<and> handleError (Error (msg_cannot_execute (status log)))
           = (409, msg_cannot_execute (status log))"
  using assms by (simp add: executeUpgrade_def cannot_execute_409)

theorem executeUpgrade_wrong_status_witness:
  "contract_upgrade_logs (example_db Pending) 1 = Some (example_log Pending)
   \<and> contract_registry (example_db Pending) (registry_id (example_log Pending))
       = Some seed_contract
   \<and> status (example_log Pending) \<noteq> Simulated \<and> status (example_log Pending) \<noteq> Confirmed
   \<and> executeUpgrade confirming_rpc 7 1 ''SADMIN'' (example_db Pending)
       = (Inl (Error (msg_cannot_execute Pending)), example_db Pending)
   \<and> str_includes (msg_cannot_execute Pending) (quoted ''pending'')
   \<and> handleError (Error (msg_cannot_execute Pending)) = (409, msg_cannot_execute Pending)"
proof -
  have h1: "contract_upgrade_logs (example_db Pending) 1 = Some (example_log Pending)"
    by (simp add: example_db_def)
  have h2: "contract_registry (example_db Pending) (registry_id (example_log Pending))
              = Some seed_contract"
    by (simp add: example_db_def example_log_def)
  have h3: "status (example_log Pending) \<noteq> Simulated"
    by (simp add: example_log_def)
  have h4: "status (example_log Pending) \<noteq> Confirmed"
    by (simp add: example_log_def)
  have h5: "status (example_log Pending) = Pending"
    by (simp add: example_log_def)
  show ?thesis
    using executeUpgrade_wrong_status [OF h1 h2 h3 h4, of confirming_rpc 7 "''SADMIN''"]
      h1 h2 h3 h4 h5
    by simp
qed

subsection \<open>cancelUpgrade\<close>

text \<open>
  C8. For a log that exists, \<open>cancelUpgrade\<close> succeeds exactly when the status is
  \<open>pending\<close>, \<open>simulated\<close> or \<open>confirmed\<close>; the log then becomes \<open>cancelled\<close> with
  \<open>completed_at\<close> set and nothing else changes. From any other status (\<open>executing\<close>,
  \<open>completed\<close>, \<open>failed\<close>, \<open>cancelled\<close>) it throws the error the controller answers with
  409 and the database is unchanged.
\<close>

theorem cancelUpgrade_statuses:
  assumes "contract_upgrade_logs s logId = Some log"
  shows "((\<exists>u. fst (cancelUpgrade now logId s) = Inr u) \<longleftrightarrow>
            status log \<in> {Pending, Simulated, Confirmed})
       \<and> (status log \<in> {Pending, Simulated, Confirmed} \<longrightarrow>
            snd (cancelUpgrade now logId s) =
              s\<lparr>contract_upgrade_logs := (contract_upgrade_logs s)
                   (logId \<mapsto> log\<lparr>status := Cancelled, completed_at := Some now\<rparr>)\<rparr>)
       \<and> (status log \<notin> {Pending, Simulated, Confirmed} \<longrightarrow>
            cancelUpgrade now logId s = (Inl (Error msg_cannot_cancel), s)
            \<and> handleError (Error msg_cannot_cancel) = (409, msg_cannot_cancel))"
  using assms by (simp add: cancelUpgrade_def handleError_cannot_cancel)

theorem cancelUpgrade_statuses_witness:
  "contract_upgrade_logs (example_db Simulated) 1 = Some (example_log Simulated)
   \<and> status (example_log Simulated) \<in> {Pending, Simulated, Confirmed}
   \<and> (\<exists>u. fst (cancelUpgrade 7 1 (example_db Simulated)) = Inr u)
   \<and> snd (cancelUpgrade 7 1 (example_db Simulated)) =
        (example_db Simulated)\<lparr>contract_upgrade_logs :=
           (contract_upgrade_logs (example_db Simulated))
             (1 \<mapsto> (example_log Simulated)\<lparr>status := Cancelled, completed_at := Some 7\<rparr>)\<rparr>
   \<and> contract_upgrade_logs (example_db Executing) 1 = Some (example_log Executing)
   \<and> status (example_log Executing) \<notin> {Pending, Simulated, Confirmed}
   \<and> cancelUpgrade 7 1 (example_db Executing)
        = (Inl (Error msg_cannot_cancel), example_db Executing)"
proof -
  have h1: "contract_upgrade_logs (example_db Simulated) 1 = Some (example_log Simulated)"
    by (simp add: example_db_def)
  have h2: "status (example_log Simulated) \<in> {Pending, Simulated, Confirmed}"
    by (simp add: example_log_def)
  have h3: "contract_upgrade_logs (example_db Executing) 1 = Some (example_log Executing)"
    by (simp add: example_db_def)
  have h4: "status (example_log Executing) \<notin> {Pending, Simulated, Confirmed}"
    by (simp add: example_log_def)
  show ?thesis
    using cancelUpgrade_statuses [OF h1, of 7] cancelUpgrade_statuses [OF h3, of 7] h1 h2 h3 h4
    by blast
qed

text \<open>
  C10, amended. For an id below \<open>2^63\<close>, the range of the id column, under which no
  log is stored, \<open>cancelUpgrade\<close> throws the very error it throws for a log that can no
  longer be cancelled; the controller answers it with 409 and its message, not with 404,
  and the database is unchanged.
\<close>

theorem cancelUpgrade_missing_log:
  assumes "contract_upgrade_logs s logId = None" and "0 < logId" and "logId < 2 ^ 63"
  shows "cancelUpgrade now logId s = (Inl (Error msg_cannot_cancel), s)
       \<and> controller_cancelUpgrade now (int logId) s = ((409, msg_cannot_cancel), s)
       \<and> (\<forall>s' logId' log'.
             contract_upgrade_logs s' logId' = Some log'
             \<and> status log' \<notin> {Pending, Simulated, Confirmed}
             \<longrightarrow> fst (cancelUpgrade now logId' s') = fst (cancelUpgrade now logId s))"
  using assms
  by (simp add: cancelUpgrade_def controller_cancelUpgrade_def positive_id_def
      handleError_cannot_cancel)

theorem cancelUpgrade_missing_log_witness:
  "contract_upgrade_logs (example_db Pending) 5 = None \<and> (0::nat) < 5 \<and> (5::nat) < 2 ^ 63
   \<and> cancelUpgrade 7 5 (example_db Pending)
        = (Inl (Error msg_cannot_cancel), example_db Pending)
   \<and> controller_cancelUpgrade 7 5 (example_db Pending)
        = ((409, msg_cannot_cancel), example_db Pending)
   \<and> contract_upgrade_logs (example_db Completed) 1 = Some (example_log Completed)
   \<and> status (example_log Completed) \<notin> {Pending, Simulated, Confirmed}
   \<and> fst (cancelUpgrade 7 1 (example_db Completed))
        = fst (cancelUpgrade 7 5 (example_db Pending))"
proof -
  have h1: "contract_upgrade_logs (example_db Pending) 5 = None"
    by (simp add: example_db_def)
  have h2: "(0::nat) < 5"
    by simp
  have h3: "contract_upgrade_logs (example_db Completed) 1 = Some (example_log Completed)"
    by (simp add: example_db_def)
  have h4: "status (example_log Completed) \<notin> {Pending, Simulated, Confirmed}"
    by (simp add: example_log_def)
  have h5: "(5::nat) < 2 ^ 63"
    by simp
  have i5: "int 5 = 5"
    by simp
  show ?thesis
    using cancelUpgrade_missing_log [OF h1 h2 h5, of 7] h1 h3 h4 i5
    by (metis h2 h5)
qed

text \<open>
  C10 as stated fails for an id outside the column's range: for 9223372036854776000,
  which is above \<open>2^63\<close> and under which no log is stored, the \<open>UPDATE\<close> raises the
  out-of-range error, not the error of a too-late cancellation, and the controller
  answers 500.
\<close>

lemma big_id_digits: "string_of_nat 9223372036854776000 = ''9223372036854776000''"
  by (simp add: string_of_nat.simps)

lemma big_id_error: "msg_out_of_range_bigint 9223372036854776000 = big_id_message"
  by (simp add: msg_out_of_range_bigint_def big_id_digits big_id_message_def)

lemma handleError_big_id: "handleError (Error big_id_message) = (500, ''Internal Server Error'')"
  by code_simp

lemma big_id_not_cannot_cancel: "big_id_message \<noteq> msg_cannot_cancel"
  by code_simp

theorem cancelUpgrade_out_of_range_counterexample:
  "contract_upgrade_logs (example_db Pending) 9223372036854776000 = None
   \<and> (0::nat) < 9223372036854776000
   \<and> cancelUpgrade 7 9223372036854776000 (example_db Pending)
        = (Inl (Error big_id_message), example_db Pending)
   \<and> big_id_message \<noteq> msg_cannot_cancel
   \<and> controller_cancelUpgrade 7 9223372036854776000 (example_db Pending)
        = ((500, ''Internal Server Error''), example_db Pending)"
proof -
  have n: "contract_upgrade_logs (example_db Pending) 9223372036854776000 = None"
    by (simp add: example_db_def)
  have c: "cancelUpgrade 7 9223372036854776000 (example_db Pending)
        = (Inl (Error big_id_message), example_db Pending)"
    by (simp add: cancelUpgrade_def n big_id_error)
  have p: "positive_id 9223372036854776000 = Some 9223372036854776000"
    by (simp add: positive_id_def)
  have k: "controller_cancelUpgrade 7 9223372036854776000 (example_db Pending)
        = ((500, ''Internal Server Error''), example_db Pending)"
    by (simp add: controller_cancelUpgrade_def p c handleError_big_id)
  show ?thesis
    using n c k big_id_not_cannot_cancel by simp
qed

subsection \<open>validateWasmHash and the ledger\<close>

text \<open>
  C9. For a hash that passes the format check and differs from the current hash of an
  existing contract (compared as the function compares them, in lowercase; for two
  lowercase hashes this is plain inequality, see \<open>toLowerCase_fix\<close>): when the ledger
  query throws, \<open>validateWasmHash\<close> writes one warning and returns \<open>valid = true\<close>, and
  throws nothing; when the query answers with no entries, it returns \<open>valid = false\<close>
  with the reason that the hash was not found on the network.
\<close>

theorem validateWasmHash_rpc:
  assumes "WASM_HASH_REGEX_test newWasmHash"
    and "getContract s registryId = Some contract"
    and "toLowerCase newWasmHash \<noteq> toLowerCase (current_wasm_hash contract)"
  shows "validateWasmHash (LedgerEntriesThrows err) s registryId newWasmHash
           = (Inr \<lparr>valid = True, reason = None\<rparr>, [warn_rpc_unreachable])
       \<and> validateWasmHash (LedgerEntries None) s registryId newWasmHash
           = (Inr \<lparr>valid = False, reason = Some reason_not_on_chain\<rparr>, [])
       \<and> validateWasmHash (LedgerEntries (Some 0)) s registryId newWasmHash
           = (Inr \<lparr>valid = False, reason = Some reason_not_on_chain\<rparr>, [])"
  using assms by (simp add: validateWasmHash_def)

theorem validateWasmHash_rpc_witness:
  "WASM_HASH_REGEX_test hash_b
   \<and> getContract (example_db Pending) 1 = Some seed_contract
   \<and> toLowerCase hash_b \<noteq> toLowerCase (current_wasm_hash seed_contract)
   \<and> validateWasmHash (LedgerEntriesThrows (Error ''fetch failed'')) (example_db Pending) 1 hash_b
        = (Inr \<lparr>valid = True, reason = None\<rparr>, [warn_rpc_unreachable])
   \<and> validateWasmHash (LedgerEntries (Some 0)) (example_db Pending) 1 hash_b
        = (Inr \<lparr>valid = False, reason = Some reason_not_on_chain\<rparr>, [])"
proof -
  have h1: "WASM_HASH_REGEX_test hash_b"
    by (rule check_imp_regex [OF hash_b_check])
  have h2: "getContract (example_db Pending) 1 = Some seed_contract"
    by (simp add: getContract_def example_db_def)
  have la: "toLowerCase hash_a = hash_a"
    using hash_a_check by (simp add: toLowerCase_fix hash_column_check_def)
  have lb: "toLowerCase hash_b = hash_b"
    using hash_b_check by (simp add: toLowerCase_fix hash_column_check_def)
  have h3: "toLowerCase hash_b \<noteq> toLowerCase (current_wasm_hash seed_contract)"
    using hash_a_b by (simp add: la lb seed_contract_def)
  show ?thesis
    using validateWasmHash_rpc [OF h1 h2 h3] h1 h2 h3 by simp
qed

subsection \<open>A failing migration step\<close>

lemma executeStep_frame:
  "contract_registry s' = contract_registry s \<Longrightarrow> step_id st' = step_id st
     \<Longrightarrow> executeStep faults s' st' rid = executeStep faults s st rid"
proof -
  assume a: "contract_registry s' = contract_registry s" and b: "step_id st' = step_id st"
  show ?thesis
    unfolding executeStep_def getContract_def a b ..
qed

lemma set_log_Some:
  "contract_upgrade_logs s logId = Some l
     \<Longrightarrow> set_log logId f s = s\<lparr>contract_upgrade_logs := (contract_upgrade_logs s)(logId \<mapsto> f l)\<rparr>"
  by (simp add: set_log_def)

lemma steps_after_failure_step:
  assumes "i < k" "k < length cur"
  shows "steps_after_failure (Suc i) k msg (cur[i := step_completed (cur ! i)])
           = steps_after_failure i k msg cur"
  using assms unfolding steps_after_failure_def
  by (auto simp: nth_list_update less_Suc_eq)

lemma steps_after_failure_last:
  assumes "k < length cur"
  shows "cur[k := step_failed msg (cur ! k)] = steps_after_failure k k msg cur"
  using assms unfolding steps_after_failure_def
  by (auto simp: nth_list_update intro!: nth_equalityI)

lemma migration_loop_fails:
  assumes "contract_upgrade_logs s logId = Some l" "i \<le> k" "k < length cur"
    and "\<forall>j. i \<le> j \<and> j < k \<longrightarrow> executeStep faults s (cur ! j) rid = None"
    and "executeStep faults s (cur ! k) rid = Some e"
  shows "migration_loop faults now logId rid i cur s =
           s\<lparr>contract_upgrade_logs := (contract_upgrade_logs s)
               (logId \<mapsto> l\<lparr>migration_steps :=
                               steps_after_failure i k (message_or ''Step failed'' e) cur,
                            status := Failed,
                            error_message := Some (''Migration step '' @
                               quoted (step_name (cur ! k)) @ '' failed: '' @
                               message_or ''Step failed'' e),
                            completed_at := Some now\<rparr>)\<rparr>"
  using assms
proof (induction "k - i" arbitrary: i cur s l)
  case 0
  then have ik: "i = k" by simp
  let ?cur1 = "cur[k := (cur ! k)\<lparr>step_status := StepRunning, step_message := None\<rparr>]"
  let ?s1 = "persistMigrationSteps logId ?cur1 s"
  have reg1: "contract_registry ?s1 = contract_registry s"
    using 0 by (simp add: persistMigrationSteps_def set_log_Some)
  have id1: "step_id (?cur1 ! k) = step_id (cur ! k)"
    using 0 by simp
  have ex: "executeStep faults ?s1 (?cur1 ! k) rid = Some e"
    using 0 executeStep_frame[OF reg1 id1] by simp
  have upd: "?cur1[k := (?cur1 ! k)\<lparr>step_status := StepFailed,
                 step_message := Some (message_or ''Step failed'' e)\<rparr>]
             = steps_after_failure k k (message_or ''Step failed'' e) cur"
    using 0 by (simp add: steps_after_failure_last[symmetric] step_failed_def)
  show ?case
    using 0 ex upd
    by (subst migration_loop.simps)
       (simp add: ik Let_def persistMigrationSteps_def set_log_Some)
next
  case (Suc n)
  then have ik: "i < k" by simp
  let ?cur1 = "cur[i := (cur ! i)\<lparr>step_status := StepRunning, step_message := None\<rparr>]"
  let ?s1 = "persistMigrationSteps logId ?cur1 s"
  let ?cur2 = "cur[i := step_completed (cur ! i)]"
  let ?s2 = "persistMigrationSteps logId ?cur2 ?s1"
  have il: "i < length cur" using ik Suc.prems by simp
  have reg1: "contract_registry ?s1 = contract_registry s"
    using Suc.prems by (simp add: persistMigrationSteps_def set_log_Some)
  have id1: "step_id (?cur1 ! i) = step_id (cur ! i)"
    using il by simp
  have ex: "executeStep faults ?s1 (?cur1 ! i) rid = None"
    using Suc.prems ik executeStep_frame[OF reg1 id1] by simp
  have c2: "?cur1[i := (?cur1 ! i)\<lparr>step_status := StepCompleted,
                 step_message := Some ''Step completed successfully.''\<rparr>] = ?cur2"
    using il by (simp add: step_completed_def)
  have s2: "?s2 = s\<lparr>contract_upgrade_logs := (contract_upgrade_logs s)
               (logId \<mapsto> l\<lparr>migration_steps := ?cur2\<rparr>)\<rparr>"
    using Suc.prems by (simp add: persistMigrationSteps_def set_log_Some)
  have l2: "contract_upgrade_logs ?s2 logId = Some (l\<lparr>migration_steps := ?cur2\<rparr>)"
    by (simp add: s2)
  have reg: "contract_registry ?s2 = contract_registry s"
    by (simp add: s2)
  have rest: "\<forall>j. Suc i \<le> j \<and> j < k \<longrightarrow> executeStep faults ?s2 (?cur2 ! j) rid = None"
    using Suc.prems reg by (auto simp: executeStep_frame[OF reg refl])
  have last: "executeStep faults ?s2 (?cur2 ! k) rid = Some e"
    using Suc.prems ik reg by (simp add: executeStep_frame[OF reg refl])
  have n: "n = k - Suc i" using Suc.hyps by simp
  have IH: "migration_loop faults now logId rid (Suc i) ?cur2 ?s2 =
      ?s2\<lparr>contract_upgrade_logs := (contract_upgrade_logs ?s2)
               (logId \<mapsto> (l\<lparr>migration_steps := ?cur2\<rparr>)\<lparr>migration_steps :=
                               steps_after_failure (Suc i) k (message_or ''Step failed'' e) ?cur2,
                            status := Failed,
                            error_message := Some (''Migration step '' @
                               quoted (step_name (?cur2 ! k)) @ '' failed: '' @
                               message_or ''Step failed'' e),
                            completed_at := Some now\<rparr>)\<rparr>"
    using Suc.hyps(1)[OF n l2 _ _ rest last] ik Suc.prems by simp
  have loop: "migration_loop faults now logId rid i cur s
                = migration_loop faults now logId rid (Suc i) ?cur2 ?s2"
    using il ex c2 by (subst migration_loop.simps) (simp add: Let_def)
  have fin: "?s2\<lparr>contract_upgrade_logs := (contract_upgrade_logs ?s2)
               (logId \<mapsto> (l\<lparr>migration_steps := ?cur2\<rparr>)\<lparr>migration_steps :=
                               steps_after_failure (Suc i) k (message_or ''Step failed'' e) ?cur2,
                            status := Failed,
                            error_message := Some (''Migration step '' @
                               quoted (step_name (?cur2 ! k)) @ '' failed: '' @
                               message_or ''Step failed'' e),
                            completed_at := Some now\<rparr>)\<rparr>
       = s\<lparr>contract_upgrade_logs := (contract_upgrade_logs s)
               (logId \<mapsto> l\<lparr>migration_steps :=
                               steps_after_failure i k (message_or ''Step failed'' e) cur,
                            status := Failed,
                            error_message := Some (''Migration step '' @
                               quoted (step_name (cur ! k)) @ '' failed: '' @
                               message_or ''Step failed'' e),
                            completed_at := Some now\<rparr>)\<rparr>"
    using ik Suc.prems by (simp add: s2 steps_after_failure_step)
  show ?case
    by (simp only: loop IH fin)
qed

lemma steps_after_failure_nth:
  assumes "j < length steps"
  shows "steps_after_failure 0 k msg steps ! j =
           (if j < k then step_completed (steps ! j)
            else if j = k then step_failed msg (steps ! j) else steps ! j)"
  using assms by (simp add: steps_after_failure_def)

lemma steps_after_failure_length: "length (steps_after_failure i k msg steps) = length steps"
  by (simp add: steps_after_failure_def)

text \<open>
  C6. When the steps before position \<open>k\<close> succeed and the step at \<open>k\<close> throws,
  \<open>runMigrationSteps\<close> changes only this log: the steps before \<open>k\<close> are \<open>completed\<close>,
  step \<open>k\<close> is \<open>failed\<close> with the thrown message (\<open>Step failed\<close> for a value that is
  no \<open>Error\<close>), every later step is as it was stored (\<open>pending\<close> for the steps a log is
  created with), and the log is \<open>failed\<close> with \<open>completed_at\<close> and an error message
  naming the step. The later steps are not run: what they would have thrown has no
  influence on the result.
\<close>

theorem runMigrationSteps_step_failure:
  assumes "contract_upgrade_logs s logId = Some log"
    and "k < length (migration_steps log)"
    and "\<forall>j<k. executeStep faults s (migration_steps log ! j) (registry_id log) = None"
    and "executeStep faults s (migration_steps log ! k) (registry_id log) = Some stepErr"
  shows "runMigrationSteps faults now logId s =
           s\<lparr>contract_upgrade_logs := (contract_upgrade_logs s)
               (logId \<mapsto> log\<lparr>migration_steps :=
                    steps_after_failure 0 k (message_or ''Step failed'' stepErr)
                      (migration_steps log),
                  status := Failed,
                  error_message := Some (''Migration step '' @
                    quoted (step_name (migration_steps log ! k)) @ '' failed: '' @
                    message_or ''Step failed'' stepErr),
                  completed_at := Some now\<rparr>)\<rparr>
       \<and> length (steps_after_failure 0 k (message_or ''Step failed'' stepErr)
                   (migration_steps log)) = length (migration_steps log)
       \<and> (\<forall>j<k. steps_after_failure 0 k (message_or ''Step failed'' stepErr)
                   (migration_steps log) ! j
                 = (migration_steps log ! j)\<lparr>step_status := StepCompleted,
                      step_message := Some ''Step completed successfully.''\<rparr>)
       \<and> steps_after_failure 0 k (message_or ''Step failed'' stepErr) (migration_steps log) ! k
           = (migration_steps log ! k)\<lparr>step_status := StepFailed,
                step_message := Some (message_or ''Step failed'' stepErr)\<rparr>
       \<and> (\<forall>j. k < j \<and> j < length (migration_steps log) \<longrightarrow>
              steps_after_failure 0 k (message_or ''Step failed'' stepErr)
                (migration_steps log) ! j = migration_steps log ! j)
       \<and> (\<forall>faults'.
              (\<forall>j\<le>k. executeStep faults' s (migration_steps log ! j) (registry_id log)
                       = executeStep faults s (migration_steps log ! j) (registry_id log))
              \<longrightarrow> runMigrationSteps faults' now logId s = runMigrationSteps faults now logId s)"
proof -
  have run: "runMigrationSteps f now logId s =
           s\<lparr>contract_upgrade_logs := (contract_upgrade_logs s)
               (logId \<mapsto> log\<lparr>migration_steps :=
                    steps_after_failure 0 k (message_or ''Step failed'' stepErr)
                      (migration_steps log),
                  status := Failed,
                  error_message := Some (''Migration step '' @
                    quoted (step_name (migration_steps log ! k)) @ '' failed: '' @
                    message_or ''Step failed'' stepErr),
                  completed_at := Some now\<rparr>)\<rparr>"
    if "\<forall>j\<le>k. executeStep f s (migration_steps log ! j) (registry_id log)
                 = executeStep faults s (migration_steps log ! j) (registry_id log)" for f
  proof -
    have a: "\<forall>j. 0 \<le> j \<and> j < k \<longrightarrow>
               executeStep f s (migration_steps log ! j) (registry_id log) = None"
      using that assms(3) by simp
    have b: "executeStep f s (migration_steps log ! k) (registry_id log) = Some stepErr"
      using that assms(4) by simp
    show ?thesis
      using migration_loop_fails [OF assms(1) _ assms(2) a b, of now]
      by (simp add: runMigrationSteps_def assms(1))
  qed
  have r0: "runMigrationSteps faults now logId s =
           s\<lparr>contract_upgrade_logs := (contract_upgrade_logs s)
               (logId \<mapsto> log\<lparr>migration_steps :=
                    steps_after_failure 0 k (message_or ''Step failed'' stepErr)
                      (migration_steps log),
                  status := Failed,
                  error_message := Some (''Migration step '' @
                    quoted (step_name (migration_steps log ! k)) @ '' failed: '' @
                    message_or ''Step failed'' stepErr),
                  completed_at := Some now\<rparr>)\<rparr>"
    by (rule run) simp
  have ind: "\<forall>faults'.
              (\<forall>j\<le>k. executeStep faults' s (migration_steps log ! j) (registry_id log)
                       = executeStep faults s (migration_steps log ! j) (registry_id log))
              \<longrightarrow> runMigrationSteps faults' now logId s = runMigrationSteps faults now logId s"
    using run r0 by simp
  have p1: "\<forall>j<k. steps_after_failure 0 k (message_or ''Step failed'' stepErr)
                   (migration_steps log) ! j
                 = (migration_steps log ! j)\<lparr>step_status := StepCompleted,
                      step_message := Some ''Step completed successfully.''\<rparr>"
    using assms(2) by (simp add: steps_after_failure_nth step_completed_def)
  have p2: "steps_after_failure 0 k (message_or ''Step failed'' stepErr) (migration_steps log) ! k
           = (migration_steps log ! k)\<lparr>step_status := StepFailed,
                step_message := Some (message_or ''Step failed'' stepErr)\<rparr>"
    using assms(2) by (simp add: steps_after_failure_nth step_failed_def)
  have p3: "\<forall>j. k < j \<and> j < length (migration_steps log) \<longrightarrow>
              steps_after_failure 0 k (message_or ''Step failed'' stepErr)
                (migration_steps log) ! j = migration_steps log ! j"
    by (simp add: steps_after_failure_nth)
  show ?thesis
    using r0 ind p1 p2 p3 steps_after_failure_length by blast
qed

lemma default_steps_eval:
  "buildDefaultMigrationSteps =
     [\<lparr>step_id = ''step-0'', step_name = ''Verify on-chain contract state'',
       step_status = StepPending, step_message = None\<rparr>,
      \<lparr>step_id = ''step-1'', step_name = ''Validate storage schema compatibility'',
       step_status = StepPending, step_message = None\<rparr>,
      \<lparr>step_id = ''step-2'', step_name = ''Re-index contract data entries'',
       step_status = StepPending, step_message = None\<rparr>,
      \<lparr>step_id = ''step-3'', step_name = ''Emit upgrade audit event'',
       step_status = StepPending, step_message = None\<rparr>]"
  by code_simp

lemma witness_steps_eval:
  "map step_status (steps_after_failure 0 1 ''connection lost'' buildDefaultMigrationSteps)
     = [StepCompleted, StepFailed, StepPending, StepPending]
   \<and> step_message (steps_after_failure 0 1 ''connection lost'' buildDefaultMigrationSteps ! 1)
     = Some ''connection lost''"
  by code_simp

theorem runMigrationSteps_step_failure_witness:
  "contract_upgrade_logs (example_db Executing) 1 = Some (example_log Executing)
   \<and> (1::nat) < length (migration_steps (example_log Executing))
   \<and> executeStep step1_fault (example_db Executing)
        (migration_steps (example_log Executing) ! 0) (registry_id (example_log Executing)) = None
   \<and> executeStep step1_fault (example_db Executing)
        (migration_steps (example_log Executing) ! 1) (registry_id (example_log Executing))
        = Some (Error ''connection lost'')
   \<and> map step_status (migration_steps (the (contract_upgrade_logs
          (runMigrationSteps step1_fault 9 1 (example_db Executing)) 1)))
        = [StepCompleted, StepFailed, StepPending, StepPending]
   \<and> step_message (migration_steps (the (contract_upgrade_logs
          (runMigrationSteps step1_fault 9 1 (example_db Executing)) 1)) ! 1)
        = Some ''connection lost''
   \<and> status (the (contract_upgrade_logs
          (runMigrationSteps step1_fault 9 1 (example_db Executing)) 1)) = Failed
   \<and> completed_at (the (contract_upgrade_logs
          (runMigrationSteps step1_fault 9 1 (example_db Executing)) 1)) = Some 9
   \<and> runMigrationSteps late_faults 9 1 (example_db Executing)
        = runMigrationSteps step1_fault 9 1 (example_db Executing)"
proof -
  have h1: "contract_upgrade_logs (example_db Executing) 1 = Some (example_log Executing)"
    by (simp add: example_db_def)
  have h2: "(1::nat) < length (migration_steps (example_log Executing))"
    by code_simp
  have e0: "executeStep step1_fault (example_db Executing)
        (migration_steps (example_log Executing) ! 0) (registry_id (example_log Executing)) = None"
    by code_simp
  have e1: "executeStep step1_fault (example_db Executing)
        (migration_steps (example_log Executing) ! 1) (registry_id (example_log Executing))
        = Some (Error ''connection lost'')"
    by code_simp
  have l0: "executeStep late_faults (example_db Executing)
        (migration_steps (example_log Executing) ! 0) (registry_id (example_log Executing)) = None"
    by code_simp
  have l1: "executeStep late_faults (example_db Executing)
        (migration_steps (example_log Executing) ! 1) (registry_id (example_log Executing))
        = Some (Error ''connection lost'')"
    by code_simp
  have h3: "\<forall>j<1. executeStep step1_fault (example_db Executing)
        (migration_steps (example_log Executing) ! j) (registry_id (example_log Executing)) = None"
    using e0 by simp
  have same: "\<forall>j\<le>1. executeStep late_faults (example_db Executing)
        (migration_steps (example_log Executing) ! j) (registry_id (example_log Executing))
      = executeStep step1_fault (example_db Executing)
        (migration_steps (example_log Executing) ! j) (registry_id (example_log Executing))"
    using e0 e1 l0 l1 by (auto simp: le_Suc_eq)
  have ms: "migration_steps (example_log Executing) = buildDefaultMigrationSteps"
    by (simp add: example_log_def)
  note T = runMigrationSteps_step_failure [OF h1 h2 h3 e1, of 9]
  have eq: "runMigrationSteps late_faults 9 1 (example_db Executing)
        = runMigrationSteps step1_fault 9 1 (example_db Executing)"
    using T same by blast
  show ?thesis
    using T h1 h2 e0 e1 eq witness_steps_eval by (simp add: ms)
qed

subsection \<open>simulateUpgrade and the hash format\<close>


lemma toLowerCase_length: "length (toLowerCase v) = length v"
  by (simp add: toLowerCase_def)





lemma hash_b_length: "length hash_b = 64"
  by (simp add: hash_b_def)






text \<open>
  The closing \<open>UPDATE\<close> is refused in every call, so a call that has inserted its row
  ends with the error of that statement, which the controller answers with 500, and the
  row keeps the status it was inserted with.
\<close>

lemma simulateUpgrade_closing_update_refused:
  assumes "create_pending_log now registryId newWasmHash initiatedBy memo s = (Inr logId, s1)"
  shows "simulateUpgrade xlm rpc now registryId newWasmHash initiatedBy memo s
           = (Inl (Error msg_inconsistent_types), s1)"
  using assms by (simp add: simulateUpgrade_def record_simulation_def Let_def)

lemma handleError_inconsistent_types:
  "handleError (Error msg_inconsistent_types) = (500, ''Internal Server Error'')"
  by code_simp

lemma handleError_zod: "handleError zod_error = (400, ''Validation Error'')"
  by (simp add: handleError_def zod_error_def)

text \<open>
  C2, amended. For every hash that is not sixty-four hex digits (of either case): the
  service's \<open>validateWasmHash\<close> throws nothing and returns \<open>valid = false\<close> with the
  format reason; the controller answers \<open>validate-hash\<close> and \<open>simulate-upgrade\<close> with
  400 \<open>Validation Error\<close> without calling the service, so the database is unchanged and
  no log row is created.
\<close>

theorem malformed_hash_rejected:
  assumes "\<not> WASM_HASH_REGEX_test h"
  shows "validateWasmHash rpc s registryId h
           = (Inr \<lparr>valid = False, reason = Some reason_format\<rparr>, [])
       \<and> controller_validateHash rpc s rid h = ((400, ''Validation Error''), None)
       \<and> controller_simulateUpgrade xlm srpc now rid (body\<lparr>body_newWasmHash := h\<rparr>) s
           = ((400, ''Validation Error''), s)"
  using assms
  by (simp add: validateWasmHash_def controller_validateHash_def
      controller_simulateUpgrade_def wasmHashSchema_def simulateBodySchema_def
      handleError_zod split: option.splits)

theorem malformed_hash_rejected_witness:
  "\<not> WASM_HASH_REGEX_test ''xyz'' \<and> \<not> WASM_HASH_REGEX_test hash_g
   \<and> validateWasmHash (LedgerEntries (Some 1)) (example_db Pending) 1 ''xyz''
       = (Inr \<lparr>valid = False, reason = Some reason_format\<rparr>, [])
   \<and> controller_validateHash (LedgerEntries (Some 1)) (example_db Pending) 1 hash_g
       = ((400, ''Validation Error''), None)
   \<and> controller_simulateUpgrade plain_xlm simulation_ok 7 1 (example_body hash_g)
         (example_db Pending)
       = ((400, ''Validation Error''), example_db Pending)"
proof -
  have h1: "\<not> WASM_HASH_REGEX_test ''xyz''"
    by (simp add: WASM_HASH_REGEX_test_def)
  have h2: "\<not> WASM_HASH_REGEX_test hash_g"
    by code_simp
  have b: "(example_body hash_g)\<lparr>body_newWasmHash := hash_g\<rparr> = example_body hash_g"
    by (simp add: example_body_def)
  show ?thesis
    using malformed_hash_rejected [OF h1, where rpc = "LedgerEntries (Some 1)"
        and s = "example_db Pending" and registryId = 1]
      malformed_hash_rejected [OF h2, where rpc = "LedgerEntries (Some 1)"
        and s = "example_db Pending" and rid = 1 and xlm = plain_xlm and srpc = simulation_ok
        and now = 7 and body = "example_body hash_g"]
      h1 h2 b
    by simp
qed

text \<open>
  C2 as stated fails for uppercase hex digits: sixty-four times \<open>B\<close> is not a string of
  sixty-four lowercase hex characters, yet both schemas accept it (the patterns carry the
  \<open>i\<close> flag); \<open>validate-hash\<close> answers 200 with \<open>valid = true\<close>, and \<open>simulate-upgrade\<close>
  is not refused as invalid: the service is called and creates a log row, holding the
  hash in lowercase (the answer is the 500 of the closing \<open>UPDATE\<close>). And for a string
  that is no hash at all, the service's \<open>validateWasmHash\<close> does not fail: it returns
  \<open>valid = false\<close>.
\<close>

theorem uppercase_hash_accepted_counterexample:
  "\<not> hash_column_check hash_B_upper
   \<and> validateWasmHash (LedgerEntries (Some 1)) (example_db Pending) 1 ''xyz''
       = (Inr \<lparr>valid = False, reason = Some reason_format\<rparr>, [])
   \<and> controller_validateHash (LedgerEntries (Some 1)) (example_db Pending) 1 hash_B_upper
       = ((200, []), Some \<lparr>valid = True, reason = None\<rparr>)
   \<and> fst (controller_simulateUpgrade plain_xlm simulation_ok 7 1
         (example_body hash_B_upper) (example_db Pending)) = (500, ''Internal Server Error'')
   \<and> contract_upgrade_logs (example_db Pending) 2 = None
   \<and> map_option new_wasm_hash (contract_upgrade_logs
         (snd (controller_simulateUpgrade plain_xlm simulation_ok 7 1
                (example_body hash_B_upper) (example_db Pending))) 2) = Some hash_b"
  by code_simp

subsection \<open>Who writes the registry\<close>

lemma set_log_registry: "contract_registry (set_log logId f s) = contract_registry s"
  by (simp add: set_log_def split: option.splits)

lemma set_log_logs_Some:
  "contract_upgrade_logs s logId = Some l
     \<Longrightarrow> contract_upgrade_logs (set_log logId f s) = (contract_upgrade_logs s)(logId \<mapsto> f l)"
  by (simp add: set_log_def)

lemma insert_upgrade_log_registry:
  "contract_registry (snd (insert_upgrade_log now rid p n steps who memo s)) = contract_registry s"
  by (simp add: insert_upgrade_log_def Let_def split: option.splits)

lemma simulateUpgrade_registry:
  "contract_registry (snd (simulateUpgrade xlm rpc now rid h who memo s)) = contract_registry s"
proof (cases "getContract s rid")
  case None
  then show ?thesis
    by (simp add: simulateUpgrade_def create_pending_log_def)
next
  case (Some c)
  obtain res s1 where i: "insert_upgrade_log now rid (current_wasm_hash c) (toLowerCase h)
                            buildDefaultMigrationSteps who memo s = (res, s1)"
    by (cases "insert_upgrade_log now rid (current_wasm_hash c) (toLowerCase h)
                 buildDefaultMigrationSteps who memo s")
  have r1: "contract_registry s1 = contract_registry s"
    using insert_upgrade_log_registry [of now rid "current_wasm_hash c" "toLowerCase h"
        buildDefaultMigrationSteps who memo s] i by simp
  show ?thesis
    using Some i r1
    by (cases res) (simp_all add: simulateUpgrade_def create_pending_log_def
        record_simulation_def Let_def)
qed

lemma cancelUpgrade_registry:
  "contract_registry (snd (cancelUpgrade now logId s)) = contract_registry s"
  by (simp add: cancelUpgrade_def split: option.splits)

lemma migration_loop_registry:
  "contract_registry (migration_loop faults now logId rid i steps s) = contract_registry s"
proof (induction faults now logId rid i steps s rule: migration_loop.induct)
  case (1 faults now logId registryId i steps s)
  show ?case
    by (subst migration_loop.simps)
       (simp add: Let_def persistMigrationSteps_def set_log_registry "1.IH"
          split: option.splits)
qed

lemma runMigrationSteps_registry:
  "contract_registry (runMigrationSteps faults now logId s) = contract_registry s"
  by (simp add: runMigrationSteps_def migration_loop_registry split: option.splits)

lemma update_registry_logs:
  "update_registry now logId h pk s = Inr s' \<Longrightarrow>
     contract_upgrade_logs s' = contract_upgrade_logs s"
  by (auto simp: update_registry_def split: option.splits if_splits)

lemma update_registry_change:
  assumes "update_registry now logId h pk s = Inr s'"
    and "contract_registry s' r \<noteq> contract_registry s r"
  shows "\<exists>l c. contract_upgrade_logs s logId = Some l \<and> registry_id l = r
           \<and> contract_registry s' r = Some c \<and> varchar 64 h = Some (current_wasm_hash c)"
  using assms
  by (auto simp: update_registry_def split: option.splits if_splits)

lemma submit_upgrade_Inr:
  "submit_upgrade rpc now logId secret log s = Inr (hash, s') \<Longrightarrow>
     \<exists>pk. update_registry now logId (new_wasm_hash log) pk s = Inr s'"
  by (auto simp: submit_upgrade_def
      split: sum.splits option.splits if_splits exec_simulation.splits send_response.splits)

lemma executeUpgrade_registry_change:
  assumes "contract_registry (snd (executeUpgrade rpc now logId secret s)) r
             \<noteq> contract_registry s r"
  shows "\<exists>log hash c.
           contract_upgrade_logs s logId = Some log \<and> registry_id log = r
         \<and> status log \<in> {Simulated, Confirmed}
         \<and> fst (executeUpgrade rpc now logId secret s)
             = Inr \<lparr>res_upgradeLogId = logId, res_txHash = hash, res_status = Executing\<rparr>
         \<and> contract_registry (snd (executeUpgrade rpc now logId secret s)) r = Some c
         \<and> varchar 64 (new_wasm_hash log) = Some (current_wasm_hash c)
         \<and> contract_upgrade_logs (snd (executeUpgrade rpc now logId secret s)) logId
             = Some (log\<lparr>status := Executing, tx_hash := Some hash\<rparr>)"
proof (cases "contract_upgrade_logs s logId")
  case None
  with assms show ?thesis
    by (simp add: executeUpgrade_def)
next
  case (Some log)
  note lg = Some
  show ?thesis
  proof (cases "contract_registry s (registry_id log)")
    case None
    with assms lg show ?thesis
      by (simp add: executeUpgrade_def)
  next
    case (Some cr)
    note reg = Some
    show ?thesis
    proof (cases "status log \<in> {Simulated, Confirmed}")
      case False
      with assms lg reg show ?thesis
        by (simp add: executeUpgrade_def)
    next
      case True
      let ?s1 = "set_log logId (\<lambda>l. l\<lparr>status := Executing\<rparr>) s"
      have l1: "contract_upgrade_logs ?s1 = (contract_upgrade_logs s)
                  (logId \<mapsto> log\<lparr>status := Executing\<rparr>)"
        using lg by (rule set_log_logs_Some)
      have r1: "contract_registry ?s1 = contract_registry s"
        by (rule set_log_registry)
      show ?thesis
      proof (cases "submit_upgrade rpc now logId secret log ?s1")
        case (Inl err)
        have "snd (executeUpgrade rpc now logId secret s) = set_log logId
                    (\<lambda>l. l\<lparr>status := Failed,
                           error_message := Some (message_or ''Execution failed'' err),
                           completed_at := Some now\<rparr>) ?s1"
          using lg reg True Inl by (simp add: executeUpgrade_def Let_def)
        then have "contract_registry (snd (executeUpgrade rpc now logId secret s))
                     = contract_registry s"
          by (simp add: set_log_registry)
        with assms show ?thesis
          by simp
      next
        case (Inr p)
        obtain hash s2 where p: "p = (hash, s2)"
          by (cases p)
        have ex: "executeUpgrade rpc now logId secret s =
                    (Inr \<lparr>res_upgradeLogId = logId, res_txHash = hash, res_status = Executing\<rparr>,
                     set_log logId (\<lambda>l. l\<lparr>tx_hash := Some hash\<rparr>) s2)"
          using lg reg True Inr p by (simp add: executeUpgrade_def Let_def)
        obtain pk where u: "update_registry now logId (new_wasm_hash log) pk ?s1 = Inr s2"
          using submit_upgrade_Inr Inr p by blast
        have l2: "contract_upgrade_logs s2 = (contract_upgrade_logs s)
                  (logId \<mapsto> log\<lparr>status := Executing\<rparr>)"
          using update_registry_logs [OF u] l1 by simp
        have fin: "contract_upgrade_logs (snd (executeUpgrade rpc now logId secret s)) logId
                     = Some (log\<lparr>status := Executing, tx_hash := Some hash\<rparr>)"
          using l2 by (simp add: ex set_log_def)
        have rr: "contract_registry (snd (executeUpgrade rpc now logId secret s))
                    = contract_registry s2"
          by (simp add: ex set_log_registry)
        have ch: "contract_registry s2 r \<noteq> contract_registry ?s1 r"
          using assms rr r1 by simp
        obtain l c where lc: "contract_upgrade_logs ?s1 logId = Some l" "registry_id l = r"
            "contract_registry s2 r = Some c"
            "varchar 64 (new_wasm_hash log) = Some (current_wasm_hash c)"
          using update_registry_change [OF u ch] by blast
        have "l = log\<lparr>status := Executing\<rparr>"
          using lc(1) l1 by simp
        then have rid: "registry_id log = r"
          using lc(2) by simp
        show ?thesis
          using lg rid True ex fin rr lc(3,4) by simp
      qed
    qed
  qed
qed

text \<open>
  C1, amended. The current hash of a registry row is changed by one operation of the
  service only: an \<open>executeUpgrade\<close> that returns successfully, on a log of that contract
  that was \<open>simulated\<close> or \<open>confirmed\<close>. The row then holds the log's new hash, and the
  same call has written the transaction hash on the log, whose status at that point is
  \<open>executing\<close>. The mark \<open>completed\<close> is written later, by \<open>runMigrationSteps\<close>, which
  like \<open>validateWasmHash\<close>, \<open>simulateUpgrade\<close> and \<open>cancelUpgrade\<close> never changes a
  registry row.
\<close>

theorem registry_hash_written_by_executeUpgrade_only:
  assumes "map_option current_wasm_hash (contract_registry (apply_operation now op s) r)
             \<noteq> map_option current_wasm_hash (contract_registry s r)"
  shows "\<exists>rpc logId adminSecret log hash contract'.
           op = OpExecuteUpgrade rpc logId adminSecret
         \<and> contract_upgrade_logs s logId = Some log \<and> registry_id log = r
         \<and> status log \<in> {Simulated, Confirmed}
         \<and> fst (executeUpgrade rpc now logId adminSecret s)
             = Inr \<lparr>res_upgradeLogId = logId, res_txHash = hash, res_status = Executing\<rparr>
         \<and> contract_registry (apply_operation now op s) r = Some contract'
         \<and> varchar 64 (new_wasm_hash log) = Some (current_wasm_hash contract')
         \<and> contract_upgrade_logs (apply_operation now op s) logId
             = Some (log\<lparr>status := Executing, tx_hash := Some hash\<rparr>)"
proof -
  have ch: "contract_registry (apply_operation now op s) r \<noteq> contract_registry s r"
    using assms by auto
  show ?thesis
  proof (cases op)
    case (OpValidateWasmHash rpc rid h)
    with ch show ?thesis by simp
  next
    case (OpSimulateUpgrade xlm rpc rid h who memo)
    with ch show ?thesis by (simp add: simulateUpgrade_registry)
  next
    case (OpExecuteUpgrade rpc logId adminSecret)
    then show ?thesis
      using executeUpgrade_registry_change [of rpc now logId adminSecret s r] ch by auto
  next
    case (OpRunMigrationSteps faults logId)
    with ch show ?thesis by (simp add: runMigrationSteps_registry)
  next
    case (OpCancelUpgrade logId)
    with ch show ?thesis by (simp add: cancelUpgrade_registry)
  qed
qed

theorem registry_hash_written_by_executeUpgrade_only_witness:
  "map_option current_wasm_hash
     (contract_registry
        (apply_operation 7 (OpExecuteUpgrade confirming_rpc 1 ''SADMIN'') (example_db Simulated)) 1)
     \<noteq> map_option current_wasm_hash (contract_registry (example_db Simulated) 1)
   \<and> (\<exists>rpc logId adminSecret log hash contract'.
           OpExecuteUpgrade confirming_rpc 1 ''SADMIN'' = OpExecuteUpgrade rpc logId adminSecret
         \<and> contract_upgrade_logs (example_db Simulated) logId = Some log \<and> registry_id log = 1
         \<and> status log \<in> {Simulated, Confirmed}
         \<and> fst (executeUpgrade rpc 7 logId adminSecret (example_db Simulated))
             = Inr \<lparr>res_upgradeLogId = logId, res_txHash = hash, res_status = Executing\<rparr>
         \<and> contract_registry
              (apply_operation 7 (OpExecuteUpgrade confirming_rpc 1 ''SADMIN'')
                 (example_db Simulated)) 1 = Some contract'
         \<and> varchar 64 (new_wasm_hash log) = Some (current_wasm_hash contract')
         \<and> contract_upgrade_logs
              (apply_operation 7 (OpExecuteUpgrade confirming_rpc 1 ''SADMIN'')
                 (example_db Simulated)) logId
             = Some (log\<lparr>status := Executing, tx_hash := Some hash\<rparr>))"
proof -
  have h: "map_option current_wasm_hash
     (contract_registry
        (apply_operation 7 (OpExecuteUpgrade confirming_rpc 1 ''SADMIN'') (example_db Simulated)) 1)
     \<noteq> map_option current_wasm_hash (contract_registry (example_db Simulated) 1)"
    by code_simp
  show ?thesis
    using registry_hash_written_by_executeUpgrade_only [OF h] h by blast
qed

text \<open>
  C1 as stated fails: a confirmed upgrade changes the registry hash inside
  \<open>executeUpgrade\<close>, while the log is \<open>executing\<close>; when a migration step then fails, the
  log ends \<open>failed\<close>, is never marked \<open>completed\<close>, and the registry keeps the new hash.
\<close>

theorem registry_updated_before_completed_counterexample:
  "map_option current_wasm_hash (contract_registry (example_db Simulated) 1) = Some hash_a
   \<and> map_option current_wasm_hash
        (contract_registry
           (snd (executeUpgrade confirming_rpc 7 1 ''SADMIN'' (example_db Simulated))) 1)
       = Some hash_b
   \<and> map_option status
        (contract_upgrade_logs
           (snd (executeUpgrade confirming_rpc 7 1 ''SADMIN'' (example_db Simulated))) 1)
       = Some Executing
   \<and> map_option tx_hash
        (contract_upgrade_logs
           (snd (executeUpgrade confirming_rpc 7 1 ''SADMIN'' (example_db Simulated))) 1)
       = Some (Some ''deadbeef'')
   \<and> map_option status
        (contract_upgrade_logs
           (runMigrationSteps step1_fault 9 1
              (snd (executeUpgrade confirming_rpc 7 1 ''SADMIN'' (example_db Simulated)))) 1)
       = Some Failed
   \<and> map_option current_wasm_hash
        (contract_registry
           (runMigrationSteps step1_fault 9 1
              (snd (executeUpgrade confirming_rpc 7 1 ''SADMIN'' (example_db Simulated)))) 1)
       = Some hash_b"
  by code_simp

section \<open>Properties of the event indexer\<close>

subsection \<open>One poll cycle\<close>

lemma index_events_max:
  "fst (index_events now events m rows) = fold max (considered_ledgers now events) m"
  by (induction events arbitrary: m rows)
     (simp_all add: considered_ledgers_def max.commute split: option.splits)

lemma fold_max_Max: "fold max xs (m::int) = Max (insert m (set xs))"
  using Max.set_eq_fold [of m xs] by simp

lemma lastIndexed_lock: "lastIndexed_of cfg (s\<lparr>poll_lock := b\<rparr>) = lastIndexed_of cfg s"
  by (simp add: lastIndexed_of_def)

lemma advance_checkpoint_lock:
  "\<not> poll_lock s \<Longrightarrow>
   (advance_checkpoint now m (s\<lparr>poll_lock := True, contract_events := rows\<rparr>))\<lparr>poll_lock := False\<rparr>
     = advance_checkpoint now m (s\<lparr>contract_events := rows\<rparr>)"
  by (cases s) (simp add: advance_checkpoint_def split: option.splits)

lemma events_lock:
  "\<not> poll_lock s \<Longrightarrow>
   s\<lparr>poll_lock := True, contract_events := rows, poll_lock := False\<rparr> = s\<lparr>contract_events := rows\<rparr>"
  by (cases s) simp

lemma pollOnce_cycle:
  assumes "\<not> poll_lock s" and "indexed_contract_ids cfg \<noteq> []"
    and "rpc (max (lastIndexed_of cfg s + 1) (DEFAULT_START_LEDGER cfg)) (indexed_contract_ids cfg)
           = Inr events"
  shows "pollOnce cfg rpc now s =
           (let rows = snd (index_events now events (lastIndexed_of cfg s) (contract_events s));
                m = Max (insert (lastIndexed_of cfg s) (set (considered_ledgers now events)))
            in if m > lastIndexed_of cfg s
               then advance_checkpoint now m (s\<lparr>contract_events := rows\<rparr>)
               else s\<lparr>contract_events := rows\<rparr>)"
proof (cases "events = []")
  case True
  then show ?thesis
    using assms
    by (simp add: pollOnce_def Let_def lastIndexed_lock considered_ledgers_def)
next
  case False
  obtain m rows where ie: "index_events now events (lastIndexed_of cfg s) (contract_events s)
                             = (m, rows)"
    by (cases "index_events now events (lastIndexed_of cfg s) (contract_events s)")
  have m: "m = Max (insert (lastIndexed_of cfg s) (set (considered_ledgers now events)))"
    using index_events_max [of now events "lastIndexed_of cfg s" "contract_events s"] ie
    by (simp add: fold_max_Max)
  show ?thesis
    using assms False ie m[symmetric]
    by (simp add: pollOnce_def Let_def lastIndexed_lock advance_checkpoint_lock events_lock)
qed

lemma pollOnce_rpc_error:
  assumes "rpc (max (lastIndexed_of cfg s + 1) (DEFAULT_START_LEDGER cfg)) (indexed_contract_ids cfg)
           = Inl err"
  shows "pollOnce cfg rpc now s = s"
  using assms by (simp add: pollOnce_def Let_def lastIndexed_lock)

lemma pollOnce_idle:
  assumes "poll_lock s \<or> indexed_contract_ids cfg = []"
  shows "pollOnce cfg rpc now s = s"
  using assms by (auto simp: pollOnce_def Let_def)

lemma pollOnce_lock: "poll_lock (pollOnce cfg rpc now s) = poll_lock s"
  by (simp add: pollOnce_def Let_def)

subsection \<open>The checkpoint\<close>

lemma checkpoint_le_refl: "checkpoint_le a a"
  by (simp add: checkpoint_le_def split: option.splits)

lemma checkpoint_le_trans: "checkpoint_le a b \<Longrightarrow> checkpoint_le b c \<Longrightarrow> checkpoint_le a c"
  by (auto simp: checkpoint_le_def split: option.splits)

lemma checkpoint_events: "checkpoint (s\<lparr>contract_events := rows\<rparr>) = checkpoint s"
  by (simp add: checkpoint_def)

lemma checkpoint_advance:
  "checkpoint (advance_checkpoint now m s) = (case checkpoint s of None \<Rightarrow> None | Some c \<Rightarrow> Some m)"
  by (simp add: checkpoint_def advance_checkpoint_def split: option.splits)

lemma lastIndexed_checkpoint: "checkpoint s = Some c \<Longrightarrow> lastIndexed_of cfg s = c"
  by (auto simp: checkpoint_def lastIndexed_of_def split: option.splits)

lemma poll_step_checkpoint_le: "checkpoint_le (checkpoint s) (checkpoint (pollOnce cfg rpc now s))"
proof (cases "poll_lock s \<or> indexed_contract_ids cfg = []")
  case True
  then show ?thesis
    by (simp add: pollOnce_idle checkpoint_le_refl)
next
  case False
  show ?thesis
  proof (cases "rpc (max (lastIndexed_of cfg s + 1) (DEFAULT_START_LEDGER cfg))
                  (indexed_contract_ids cfg)")
    case (Inl err)
    then show ?thesis
      by (simp add: pollOnce_rpc_error checkpoint_le_refl)
  next
    case (Inr events)
    show ?thesis
    proof (cases "checkpoint s")
      case None
      then show ?thesis
        using False Inr
        by (simp add: pollOnce_cycle Let_def checkpoint_advance checkpoint_events
            checkpoint_le_def)
    next
      case (Some c)
      then show ?thesis
        using False Inr lastIndexed_checkpoint [OF Some, of cfg]
        by (simp add: pollOnce_cycle Let_def checkpoint_advance checkpoint_events
            checkpoint_le_def)
    qed
  qed
qed

lemma poll_all_checkpoint_le: "checkpoint_le (checkpoint s) (checkpoint (poll_all cfg calls s))"
proof (induction calls arbitrary: s)
  case Nil
  show ?case
    by (simp add: poll_all_def checkpoint_le_refl)
next
  case (Cons call calls)
  obtain rpc now where c: "call = (rpc, now)"
    by (cases call)
  have "checkpoint_le (checkpoint s) (checkpoint (pollOnce cfg rpc now s))"
    by (rule poll_step_checkpoint_le)
  moreover have "checkpoint_le (checkpoint (pollOnce cfg rpc now s))
                   (checkpoint (poll_all cfg calls (pollOnce cfg rpc now s)))"
    by (rule Cons.IH)
  ultimately show ?case
    using checkpoint_le_trans by (simp add: poll_all_def c)
qed

text \<open>
  C4. After any sequence of poll cycles the checkpoint has not decreased (and a missing
  checkpoint row stays missing). In a cycle that runs (lock free, contracts configured)
  and whose RPC call returns events, the result is the state after all the inserts with
  at most one update of the checkpoint row on top of it: the update is made exactly when
  the largest ledger sequence among the events that were not skipped exceeds the prior
  checkpoint, and sets the checkpoint to that maximum; otherwise the checkpoint row is
  untouched. In a cycle whose RPC call throws, the whole state is unchanged: the
  checkpoint is as before and no event row is added.
\<close>

theorem pollOnce_checkpoint:
  "checkpoint_le (checkpoint s) (checkpoint (poll_all cfg calls s))
   \<and> (\<not> poll_lock s \<and> indexed_contract_ids cfg \<noteq> []
        \<and> rpc (max (lastIndexed_of cfg s + 1) (DEFAULT_START_LEDGER cfg))
              (indexed_contract_ids cfg) = Inr events
      \<longrightarrow> pollOnce cfg rpc now s =
            (let rows = snd (index_events now events (lastIndexed_of cfg s) (contract_events s));
                 m = Max (insert (lastIndexed_of cfg s) (set (considered_ledgers now events)))
             in if m > lastIndexed_of cfg s
                then advance_checkpoint now m (s\<lparr>contract_events := rows\<rparr>)
                else s\<lparr>contract_events := rows\<rparr>)
        \<and> (\<forall>c. checkpoint s = Some c \<longrightarrow>
              checkpoint (pollOnce cfg rpc now s)
                = Some (Max (insert c (set (considered_ledgers now events))))
              \<and> (Max (insert c (set (considered_ledgers now events))) \<le> c \<longrightarrow>
                   contract_event_index_state (pollOnce cfg rpc now s)
                     = contract_event_index_state s)))
   \<and> (rpc (max (lastIndexed_of cfg s + 1) (DEFAULT_START_LEDGER cfg))
          (indexed_contract_ids cfg) = Inl err
      \<longrightarrow> pollOnce cfg rpc now s = s)"
proof (intro conjI impI allI)
  show "checkpoint_le (checkpoint s) (checkpoint (poll_all cfg calls s))"
    by (rule poll_all_checkpoint_le)
next
  assume a: "\<not> poll_lock s \<and> indexed_contract_ids cfg \<noteq> []
        \<and> rpc (max (lastIndexed_of cfg s + 1) (DEFAULT_START_LEDGER cfg))
              (indexed_contract_ids cfg) = Inr events"
  then show "pollOnce cfg rpc now s =
            (let rows = snd (index_events now events (lastIndexed_of cfg s) (contract_events s));
                 m = Max (insert (lastIndexed_of cfg s) (set (considered_ledgers now events)))
             in if m > lastIndexed_of cfg s
                then advance_checkpoint now m (s\<lparr>contract_events := rows\<rparr>)
                else s\<lparr>contract_events := rows\<rparr>)"
    by (simp add: pollOnce_cycle)
next
  fix c
  assume a: "\<not> poll_lock s \<and> indexed_contract_ids cfg \<noteq> []
        \<and> rpc (max (lastIndexed_of cfg s + 1) (DEFAULT_START_LEDGER cfg))
              (indexed_contract_ids cfg) = Inr events"
    and c: "checkpoint s = Some c"
  have l: "lastIndexed_of cfg s = c"
    using c by (rule lastIndexed_checkpoint)
  define m where "m = Max (insert c (set (considered_ledgers now events)))"
  have ge: "c \<le> m"
    unfolding m_def by simp
  have "checkpoint (pollOnce cfg rpc now s) = Some m"
    using a c l ge
    by (auto simp: pollOnce_cycle Let_def checkpoint_advance checkpoint_events m_def[symmetric])
  then show "checkpoint (pollOnce cfg rpc now s)
          = Some (Max (insert c (set (considered_ledgers now events))))"
    by (simp add: m_def)
next
  fix c
  assume a: "\<not> poll_lock s \<and> indexed_contract_ids cfg \<noteq> []
        \<and> rpc (max (lastIndexed_of cfg s + 1) (DEFAULT_START_LEDGER cfg))
              (indexed_contract_ids cfg) = Inr events"
    and c: "checkpoint s = Some c"
    and le: "Max (insert c (set (considered_ledgers now events))) \<le> c"
  have l: "lastIndexed_of cfg s = c"
    using c by (rule lastIndexed_checkpoint)
  define m where "m = Max (insert c (set (considered_ledgers now events)))"
  have nl: "\<not> c < m"
    using le unfolding m_def by linarith
  show "contract_event_index_state (pollOnce cfg rpc now s) = contract_event_index_state s"
    using a l nl by (simp add: pollOnce_cycle Let_def m_def[symmetric])
next
  assume "rpc (max (lastIndexed_of cfg s + 1) (DEFAULT_START_LEDGER cfg))
          (indexed_contract_ids cfg) = Inl err"
  then show "pollOnce cfg rpc now s = s"
    by (rule pollOnce_rpc_error)
qed

lemma example_ledgers: "considered_ledgers 5 example_events = [105, 100]"
  by code_simp

lemma example_ledgers6: "considered_ledgers 6 example_events = [105, 100]"
  by code_simp

lemma example_checkpoint: "checkpoint example_indexer = Some 99"
  by (simp add: checkpoint_def example_indexer_def)

theorem pollOnce_checkpoint_witness:
  "checkpoint_le (checkpoint example_indexer)
     (checkpoint (poll_all example_cfg [(fixture_rpc, 5), (failing_rpc, 6), (fixture_rpc, 7)]
                    example_indexer))
   \<and> \<not> poll_lock example_indexer \<and> indexed_contract_ids example_cfg \<noteq> []
   \<and> fixture_rpc (max (lastIndexed_of example_cfg example_indexer + 1)
                      (DEFAULT_START_LEDGER example_cfg))
        (indexed_contract_ids example_cfg) = Inr example_events
   \<and> checkpoint example_indexer = Some 99
   \<and> checkpoint (pollOnce example_cfg fixture_rpc 5 example_indexer) = Some 105
   \<and> \<not> poll_lock (pollOnce example_cfg fixture_rpc 5 example_indexer)
   \<and> checkpoint (pollOnce example_cfg fixture_rpc 6
                    (pollOnce example_cfg fixture_rpc 5 example_indexer)) = Some 105
   \<and> contract_event_index_state
        (pollOnce example_cfg fixture_rpc 6 (pollOnce example_cfg fixture_rpc 5 example_indexer))
       = contract_event_index_state (pollOnce example_cfg fixture_rpc 5 example_indexer)
   \<and> failing_rpc (max (lastIndexed_of example_cfg example_indexer + 1)
                      (DEFAULT_START_LEDGER example_cfg))
        (indexed_contract_ids example_cfg) = Inl (Error ''getEvents RPC failed with status 503'')
   \<and> pollOnce example_cfg failing_rpc 5 example_indexer = example_indexer"
proof -
  let ?s1 = "pollOnce example_cfg fixture_rpc 5 example_indexer"
  have h1: "\<not> poll_lock example_indexer \<and> indexed_contract_ids example_cfg \<noteq> []
     \<and> fixture_rpc (max (lastIndexed_of example_cfg example_indexer + 1)
                      (DEFAULT_START_LEDGER example_cfg))
        (indexed_contract_ids example_cfg) = Inr example_events"
    by (simp add: example_indexer_def example_cfg_def fixture_rpc_def)
  have h2: "failing_rpc (max (lastIndexed_of example_cfg example_indexer + 1)
                      (DEFAULT_START_LEDGER example_cfg))
        (indexed_contract_ids example_cfg) = Inl (Error ''getEvents RPC failed with status 503'')"
    by (simp add: failing_rpc_def)
  have m1: "Max (insert 99 (set (considered_ledgers 5 example_events))) = 105"
    by (simp add: example_ledgers)
  note T1 = pollOnce_checkpoint [of example_indexer example_cfg
      "[(fixture_rpc, 5), (failing_rpc, 6), (fixture_rpc, 7)]" fixture_rpc example_events 5]
  have mono: "checkpoint_le (checkpoint example_indexer)
     (checkpoint (poll_all example_cfg [(fixture_rpc, 5), (failing_rpc, 6), (fixture_rpc, 7)]
                    example_indexer))"
    using T1 by blast
  have "checkpoint ?s1 = Some (Max (insert 99 (set (considered_ledgers 5 example_events))))"
    using T1 h1 example_checkpoint by blast
  then have c1: "checkpoint ?s1 = Some 105"
    by (simp only: m1)
  have k1: "\<not> poll_lock ?s1"
    using h1 by (simp add: pollOnce_lock)
  have h3: "\<not> poll_lock ?s1 \<and> indexed_contract_ids example_cfg \<noteq> []
     \<and> fixture_rpc (max (lastIndexed_of example_cfg ?s1 + 1) (DEFAULT_START_LEDGER example_cfg))
        (indexed_contract_ids example_cfg) = Inr example_events"
    using k1 by (simp add: example_cfg_def fixture_rpc_def)
  have m2: "Max (insert 105 (set (considered_ledgers 6 example_events))) = 105"
    by (simp add: example_ledgers6)
  have m2': "Max (insert 105 (set (considered_ledgers 6 example_events))) \<le> 105"
    by (simp add: example_ledgers6)
  note T2 = pollOnce_checkpoint [of ?s1 example_cfg "[]" fixture_rpc example_events 6]
  have "checkpoint (pollOnce example_cfg fixture_rpc 6 ?s1)
          = Some (Max (insert 105 (set (considered_ledgers 6 example_events))))"
    using T2 h3 c1 by blast
  then have c2: "checkpoint (pollOnce example_cfg fixture_rpc 6 ?s1) = Some 105"
    by (simp only: m2)
  have i2: "contract_event_index_state (pollOnce example_cfg fixture_rpc 6 ?s1)
              = contract_event_index_state ?s1"
    using T2 h3 c1 m2' by blast
  note T3 = pollOnce_checkpoint [of example_indexer example_cfg "[]" failing_rpc _ 5
      "Error ''getEvents RPC failed with status 503''"]
  have f: "pollOnce example_cfg failing_rpc 5 example_indexer = example_indexer"
    using T3 h2 by blast
  show ?thesis
    using mono h1 h2 example_checkpoint c1 k1 c2 i2 f by blast
qed

subsection \<open>Polling the same events again\<close>

lemma index_events_rows:
  "snd (index_events now events m rows) = fold insert_event (List.map_filter (event_row now) events) rows"
  by (induction events arbitrary: m rows) (simp_all split: option.splits)

lemma insert_event_keys:
  "event_key ` set (insert_event r rows) = insert (event_key r) (event_key ` set rows)"
  by (auto simp: insert_event_def)

lemma fold_insert_event_keys:
  "event_key ` set (fold insert_event rs rows) = event_key ` set rows \<union> event_key ` set rs"
  by (induction rs arbitrary: rows) (auto simp: insert_event_keys)

lemma fold_insert_event_absorbed:
  "event_key ` set rs \<subseteq> event_key ` set rows \<Longrightarrow> fold insert_event rs rows = rows"
  by (induction rs arbitrary: rows) (auto simp: insert_event_def)

lemma insert_event_distinct:
  "distinct (map event_key rows) \<Longrightarrow> distinct (map event_key (insert_event r rows))"
  by (auto simp: insert_event_def)

lemma fold_insert_event_distinct:
  "distinct (map event_key rows) \<Longrightarrow> distinct (map event_key (fold insert_event rs rows))"
  by (induction rs arbitrary: rows) (simp_all add: insert_event_distinct)

lemma event_row_key_time:
  "map_option event_key (event_row now ev) = map_option event_key (event_row now' ev)"
  by (simp add: event_row_def event_key_def Let_def split: option.splits)

lemma considered_keys_time:
  "event_key ` set (List.map_filter (event_row now) events)
     = event_key ` set (List.map_filter (event_row now') events)"
proof (induction events)
  case Nil
  show ?case by simp
next
  case (Cons ev events)
  show ?case
    using Cons.IH event_row_key_time [of now ev now']
    by (cases "event_row now ev"; cases "event_row now' ev") simp_all
qed

lemma map_filter_member:
  "f x = Some y \<Longrightarrow> x \<in> set xs \<Longrightarrow> y \<in> set (List.map_filter f xs)"
  by (induction xs) (auto split: option.splits)

lemma advance_checkpoint_events:
  "contract_events (advance_checkpoint now m s) = contract_events s"
  by (simp add: advance_checkpoint_def split: option.splits)

lemma pollOnce_events:
  "contract_events (pollOnce cfg rpc now s) =
     (if poll_lock s \<or> indexed_contract_ids cfg = [] then contract_events s
      else
        (case rpc (max (lastIndexed_of cfg s + 1) (DEFAULT_START_LEDGER cfg))
                (indexed_contract_ids cfg) of
           Inl err \<Rightarrow> contract_events s
         | Inr events \<Rightarrow> fold insert_event (List.map_filter (event_row now) events)
                          (contract_events s)))"
proof (cases "poll_lock s \<or> indexed_contract_ids cfg = []")
  case True
  then show ?thesis
    by (simp add: pollOnce_idle)
next
  case False
  show ?thesis
  proof (cases "rpc (max (lastIndexed_of cfg s + 1) (DEFAULT_START_LEDGER cfg))
                  (indexed_contract_ids cfg)")
    case (Inl err)
    then show ?thesis
      using False by (simp add: pollOnce_rpc_error)
  next
    case (Inr events)
    then show ?thesis
      using False
      by (simp add: pollOnce_cycle Let_def advance_checkpoint_events index_events_rows)
  qed
qed

text \<open>
  C5. Against an RPC that returns the same events at every call, a second \<open>pollOnce\<close>
  leaves in \<open>contract_events\<close> exactly the rows the first one left. Every event the loop
  does not skip has its pair of event id and contract id in the table after a cycle that
  ran; a table without a repeated pair has none after a cycle either; and for an event
  without an id of its own the id stored is the contract id, the ledger sequence and the
  transaction hash (empty when absent), joined by dashes.
\<close>

theorem pollOnce_twice_same_rows:
  "contract_events (pollOnce cfg (\<lambda>start ids. Inr events) now'
                      (pollOnce cfg (\<lambda>start ids. Inr events) now s))
     = contract_events (pollOnce cfg (\<lambda>start ids. Inr events) now s)
   \<and> (distinct (map event_key (contract_events s)) \<longrightarrow>
        distinct (map event_key (contract_events (pollOnce cfg rpc now s))))
   \<and> (\<forall>ev r. ev \<in> set events \<and> event_row now ev = Some r
          \<and> \<not> poll_lock s \<and> indexed_contract_ids cfg \<noteq> [] \<longrightarrow>
          event_key r \<in> event_key ` set (contract_events
                                           (pollOnce cfg (\<lambda>start ids. Inr events) now s)))
   \<and> (\<forall>ev r. truthy (ev_id ev) = None \<and> event_row now ev = Some r \<longrightarrow>
          event_id r = ce_contract_id r @ ''-'' @ string_of_nat (nat (ledger_sequence r)) @ ''-'' @
                       (case ce_tx_hash r of Some h \<Rightarrow> h | None \<Rightarrow> []))"
proof (intro conjI impI allI)
  let ?rpc = "\<lambda>(start::int) (ids::string list). (Inr events :: thrown + RpcContractEvent list)"
  let ?s1 = "pollOnce cfg ?rpc now s"
  show "contract_events (pollOnce cfg ?rpc now' ?s1) = contract_events ?s1"
  proof (cases "poll_lock s \<or> indexed_contract_ids cfg = []")
    case True
    then show ?thesis
      by (simp add: pollOnce_idle)
  next
    case False
    have e1: "contract_events ?s1
                = fold insert_event (List.map_filter (event_row now) events) (contract_events s)"
      using False by (simp add: pollOnce_events)
    have sub: "event_key ` set (List.map_filter (event_row now') events)
                 \<subseteq> event_key ` set (contract_events ?s1)"
      using considered_keys_time [of now' events now]
      by (simp add: e1 fold_insert_event_keys)
    have "contract_events (pollOnce cfg ?rpc now' ?s1)
            = fold insert_event (List.map_filter (event_row now') events) (contract_events ?s1)"
      using False by (simp add: pollOnce_events [of cfg ?rpc now' ?s1] pollOnce_lock)
    then show ?thesis
      using fold_insert_event_absorbed [OF sub] by simp
  qed
next
  assume "distinct (map event_key (contract_events s))"
  then show "distinct (map event_key (contract_events (pollOnce cfg rpc now s)))"
    by (simp add: pollOnce_events fold_insert_event_distinct split: sum.splits)
next
  fix ev r
  assume a: "ev \<in> set events \<and> event_row now ev = Some r
          \<and> \<not> poll_lock s \<and> indexed_contract_ids cfg \<noteq> []"
  then have "r \<in> set (List.map_filter (event_row now) events)"
    using map_filter_member [of "event_row now" ev r events] by simp
  then show "event_key r \<in> event_key ` set (contract_events
                                           (pollOnce cfg (\<lambda>start ids. Inr events) now s))"
    using a by (simp add: pollOnce_events fold_insert_event_keys)
next
  fix ev r
  assume "truthy (ev_id ev) = None \<and> event_row now ev = Some r"
  then show "event_id r = ce_contract_id r @ ''-'' @ string_of_nat (nat (ledger_sequence r)) @ ''-'' @
                       (case ce_tx_hash r of Some h \<Rightarrow> h | None \<Rightarrow> [])"
    by (auto simp: event_row_def Let_def split: option.splits if_splits)
qed

lemma example_rows_distinct: "distinct (map event_key (contract_events example_indexer))"
  by (simp add: example_indexer_def)

lemma example_event_row:
  "event_row 5 event_without_id =
     Some \<lparr>event_id = ''CBULK-105-cd34'', ce_contract_id = ''CBULK'', event_type = ''transfer'',
           payload = event_without_id, ledger_sequence = 105, ce_tx_hash = Some ''cd34'',
           ce_created_at = 5\<rparr>"
  by code_simp

theorem pollOnce_twice_same_rows_witness:
  "contract_events (pollOnce example_cfg (\<lambda>start ids. Inr example_events) 6
                      (pollOnce example_cfg (\<lambda>start ids. Inr example_events) 5 example_indexer))
     = contract_events (pollOnce example_cfg (\<lambda>start ids. Inr example_events) 5 example_indexer)
   \<and> distinct (map event_key (contract_events example_indexer))
   \<and> distinct (map event_key
                 (contract_events (pollOnce example_cfg fixture_rpc 5 example_indexer)))
   \<and> event_without_id \<in> set example_events
   \<and> event_row 5 event_without_id =
       Some \<lparr>event_id = ''CBULK-105-cd34'', ce_contract_id = ''CBULK'', event_type = ''transfer'',
             payload = event_without_id, ledger_sequence = 105, ce_tx_hash = Some ''cd34'',
             ce_created_at = 5\<rparr>
   \<and> \<not> poll_lock example_indexer \<and> indexed_contract_ids example_cfg \<noteq> []
   \<and> (''CBULK-105-cd34'', ''CBULK'')
       \<in> event_key ` set (contract_events
            (pollOnce example_cfg (\<lambda>start ids. Inr example_events) 5 example_indexer))
   \<and> truthy (ev_id event_without_id) = None
   \<and> ''CBULK-105-cd34'' = ''CBULK'' @ ''-'' @ string_of_nat (nat 105) @ ''-'' @ ''cd34''"
proof -
  let ?r = "\<lparr>event_id = ''CBULK-105-cd34'', ce_contract_id = ''CBULK'', event_type = ''transfer'',
             payload = event_without_id, ledger_sequence = 105, ce_tx_hash = Some ''cd34'',
             ce_created_at = 5\<rparr>"
  note T = pollOnce_twice_same_rows [of example_cfg example_events 6 5 example_indexer fixture_rpc]
  have m: "event_without_id \<in> set example_events"
    by (simp add: example_events_def)
  have l: "\<not> poll_lock example_indexer \<and> indexed_contract_ids example_cfg \<noteq> []"
    by (simp add: example_indexer_def example_cfg_def)
  have t: "truthy (ev_id event_without_id) = None"
    by (simp add: truthy_def event_without_id_def)
  have k: "event_key ?r = (''CBULK-105-cd34'', ''CBULK'')"
    by (simp add: event_key_def)
  have mem: "event_key ?r \<in> event_key ` set (contract_events
            (pollOnce example_cfg (\<lambda>start ids. Inr example_events) 5 example_indexer))"
    using T m l example_event_row by blast
  have fb: "event_id ?r = ce_contract_id ?r @ ''-'' @ string_of_nat (nat (ledger_sequence ?r)) @ ''-'' @
                       (case ce_tx_hash ?r of Some h \<Rightarrow> h | None \<Rightarrow> [])"
    using T t example_event_row by blast
  show ?thesis
    using T example_rows_distinct m l t mem fb example_event_row k by simp
qed

end
